theory Spec2Isabelle
  imports Main
begin

section \<open>Tokens, canonical positions and the index table\<close>

text \<open>
  A \<open>TfToken\<close> is modelled by its text. The exceptions the translation unit can raise are
  values of \<open>error\<close>: \<open>OutOfRange\<close> is the \<open>std::out_of_range\<close> of a failed
  \<open>.at()\<close>, \<open>RuntimeError\<close> the \<open>std::runtime_error\<close> thrown with the given text, and
  \<open>NullFunctionCall\<close> the call through a null conversion function.
\<close>

type_synonym TfToken = string

datatype error = OutOfRange | RuntimeError string | NullFunctionCall

text \<open>
  Modelled from the spec: the enumeration \<open>UsdTransform3dMayaXformStack::OpNdx\<close> is
  declared in the header \<open>UsdTransform3dMayaXformStack.h\<close>, which is not among the
  sources. Its thirteen enumerators are named in the source; their order is the order in
  which section 1 of the specification lists the thirteen logical slots.
\<close>

datatype OpNdx =
    NdxTranslate
  | NdxPivot
  | NdxRotatePivotTranslate
  | NdxRotatePivot
  | NdxRotate
  | NdxRotateAxis
  | NdxRotatePivotInverse
  | NdxScalePivotTranslate
  | NdxScalePivot
  | NdxShear
  | NdxScale
  | NdxScalePivotInverse
  | NdxPivotInverse

fun ndxValue :: "OpNdx \<Rightarrow> nat" where
  "ndxValue NdxTranslate = 0"
| "ndxValue NdxPivot = 1"
| "ndxValue NdxRotatePivotTranslate = 2"
| "ndxValue NdxRotatePivot = 3"
| "ndxValue NdxRotate = 4"
| "ndxValue NdxRotateAxis = 5"
| "ndxValue NdxRotatePivotInverse = 6"
| "ndxValue NdxScalePivotTranslate = 7"
| "ndxValue NdxScalePivot = 8"
| "ndxValue NdxShear = 9"
| "ndxValue NdxScale = 10"
| "ndxValue NdxScalePivotInverse = 11"
| "ndxValue NdxPivotInverse = 12"

text \<open>\<open>std::map<OpNdx, _>\<close> compares its keys as the enumerators' integer values.\<close>

instantiation OpNdx :: linorder
begin

definition less_eq_OpNdx :: "OpNdx \<Rightarrow> OpNdx \<Rightarrow> bool" where
  "less_eq_OpNdx a b = (ndxValue a \<le> ndxValue b)"

definition less_OpNdx :: "OpNdx \<Rightarrow> OpNdx \<Rightarrow> bool" where
  "less_OpNdx a b = (ndxValue a < ndxValue b)"

instance
proof
  fix a b :: OpNdx
  show "a \<le> b \<Longrightarrow> b \<le> a \<Longrightarrow> a = b"
    by (cases a; cases b; simp add: less_eq_OpNdx_def)
qed (auto simp: less_eq_OpNdx_def less_OpNdx_def)

end

text \<open>The table \<open>gOpNameToNdx\<close>, entry for entry.\<close>

definition gOpNameToNdx_entries :: "(TfToken \<times> OpNdx) list" where
  "gOpNameToNdx_entries =
    [ (''xformOp:translate'', NdxTranslate),
      (''xformOp:translate:pivot'', NdxPivot),
      (''xformOp:translate:rotatePivotTranslate'', NdxRotatePivotTranslate),
      (''xformOp:translate:rotatePivot'', NdxRotatePivot),
      (''xformOp:rotateX'', NdxRotate),
      (''xformOp:rotateY'', NdxRotate),
      (''xformOp:rotateZ'', NdxRotate),
      (''xformOp:rotateXYZ'', NdxRotate),
      (''xformOp:rotateXZY'', NdxRotate),
      (''xformOp:rotateYXZ'', NdxRotate),
      (''xformOp:rotateYZX'', NdxRotate),
      (''xformOp:rotateZXY'', NdxRotate),
      (''xformOp:rotateZYX'', NdxRotate),
      (''xformOp:orient'', NdxRotate),
      (''xformOp:rotateXYZ:rotateAxis'', NdxRotateAxis),
      (''!invert!xformOp:translate:rotatePivot'', NdxRotatePivotInverse),
      (''xformOp:translate:scalePivotTranslate'', NdxScalePivotTranslate),
      (''xformOp:translate:scalePivot'', NdxScalePivot),
      (''xformOp:transform:shear'', NdxShear),
      (''xformOp:scale'', NdxScale),
      (''!invert!xformOp:translate:scalePivot'', NdxScalePivotInverse),
      (''!invert!xformOp:translate:pivot'', NdxPivotInverse) ]"

text \<open>\<open>gOpNameToNdx.find(name)\<close>: \<open>None\<close> is \<open>end()\<close>.\<close>

definition gOpNameToNdx_find :: "TfToken \<Rightarrow> OpNdx option" where
  "gOpNameToNdx_find name = map_of gOpNameToNdx_entries name"

text \<open>\<open>gOpNameToNdx.at(name)\<close>: throws \<open>std::out_of_range\<close> for a missing key.\<close>

definition gOpNameToNdx_at :: "TfToken \<Rightarrow> error + OpNdx" where
  "gOpNameToNdx_at name =
    (case gOpNameToNdx_find name of None \<Rightarrow> Inl OutOfRange | Some ndx \<Rightarrow> Inr ndx)"

section \<open>The scene-graph store\<close>

text \<open>
  The store is the external collaborator of section 6 of the specification. A value held
  by an attribute is a \<open>VtValue\<close>: empty, a \<open>GfVec3f\<close> or a \<open>GfVec3d\<close>. The scalar type
  \<open>'c\<close> stands for the doubles, and a float is the double it equals; the program
  only ever constructs \<open>0\<close> and \<open>1\<close> itself, and no arithmetic is modelled. The
  conversion from double to float is the parameter \<open>narrow\<close> of the functions that
  build a \<open>GfVec3f\<close> from doubles.
\<close>

datatype 'c VtValue = VtEmpty | VtVec3f 'c 'c 'c | VtVec3d 'c 'c 'c

datatype 'c Vector3d = Vector3d 'c 'c 'c | Indeterminate

text \<open>\<open>GfVec3f v(x, y, z)\<close> with double arguments: each is narrowed to a float.\<close>

definition GfVec3f :: "('c \<Rightarrow> 'c) \<Rightarrow> 'c \<Rightarrow> 'c \<Rightarrow> 'c \<Rightarrow> 'c VtValue" where
  "GfVec3f narrow x y z = VtVec3f (narrow x) (narrow y) (narrow z)"

datatype Precision = PrecisionFloat | PrecisionDouble

datatype OpType = TypeTranslate | TypeScale | TypeRotateXYZ

text \<open>
  A transform operation is a handle on an attribute of the prim together with the
  inverse flag. \<open>GetName\<close> is the attribute's name, \<open>GetOpName\<close> the name under which
  the operation stands in the order, with the prefix \<open>!invert!\<close> for an inverse.
\<close>

record UsdGeomXformOp =
  opAttrName :: TfToken
  isInverseOp :: bool

definition GetName :: "UsdGeomXformOp \<Rightarrow> TfToken" where
  "GetName xop = opAttrName xop"

definition GetOpName :: "UsdGeomXformOp \<Rightarrow> TfToken" where
  "GetOpName xop = (if isInverseOp xop then ''!invert!'' @ opAttrName xop else opAttrName xop)"

text \<open>
  The static \<open>UsdGeomXformOp::GetOpName(type, suffix)\<close>: the namespace \<open>xformOp\<close>, the
  type's token and, when the suffix is not empty, the suffix, joined by colons.
\<close>

fun opTypeToken :: "OpType \<Rightarrow> TfToken" where
  "opTypeToken TypeTranslate = ''translate''"
| "opTypeToken TypeScale = ''scale''"
| "opTypeToken TypeRotateXYZ = ''rotateXYZ''"

definition GetOpNameFor :: "OpType \<Rightarrow> TfToken \<Rightarrow> TfToken" where
  "GetOpNameFor ty suffix =
    (if suffix = [] then ''xformOp:'' @ opTypeToken ty
     else ''xformOp:'' @ opTypeToken ty @ '':'' @ suffix)"

text \<open>
  A prim: whether the transformable schema applies to it, its attributes by name (each
  with its value, \<open>VtEmpty\<close> while never written), the authored operation order and the
  reset flag. The remaining fields stand for what the store decides on its own: the
  attributes whose edit the authoring context forbids (with the message given), the
  operation names whose creation the store rejects, and whether it rejects a write of
  the order.
\<close>

record 'c UsdPrim =
  primXformable :: bool
  primAttrs :: "(TfToken \<times> 'c VtValue) list"
  xformOpOrder :: "UsdGeomXformOp list"
  resetsXformStack :: bool
  editForbidden :: "(TfToken \<times> string) list"
  addRejected :: "TfToken list"
  orderWriteRejected :: bool

definition GetAttribute :: "'c UsdPrim \<Rightarrow> TfToken \<Rightarrow> 'c VtValue option" where
  "GetAttribute prim name = map_of (primAttrs prim) name"

definition HasValue :: "'c VtValue \<Rightarrow> bool" where
  "HasValue v = (v \<noteq> VtEmpty)"

text \<open>
  \<open>GetOrderedXformOps\<close> yields the operations of the authored order whose attribute
  exists on the prim, and the reset flag.
\<close>

definition GetOrderedXformOps :: "'c UsdPrim \<Rightarrow> UsdGeomXformOp list \<times> bool" where
  "GetOrderedXformOps prim =
    (filter (\<lambda>xop. GetAttribute prim (opAttrName xop) \<noteq> None) (xformOpOrder prim),
     resetsXformStack prim)"

definition SetXformOpOrder ::
  "'c UsdPrim \<Rightarrow> UsdGeomXformOp list \<Rightarrow> bool \<Rightarrow> 'c UsdPrim \<times> bool" where
  "SetXformOpOrder prim newOrder resets =
    (if orderWriteRejected prim then (prim, False)
     else (prim\<lparr>xformOpOrder := newOrder, resetsXformStack := resets\<rparr>, True))"

text \<open>
  \<open>AddXformOp\<close> creates the attribute when the prim does not have it yet and appends the
  operation to the order; a rejected creation changes nothing and yields no handle.
\<close>

definition AddXformOp ::
  "'c UsdPrim \<Rightarrow> OpType \<Rightarrow> Precision \<Rightarrow> TfToken \<Rightarrow> bool \<Rightarrow> 'c UsdPrim \<times> UsdGeomXformOp option" where
  "AddXformOp prim ty prec suffix isInverse =
    (let name = GetOpNameFor ty suffix;
         xop = \<lparr>opAttrName = name, isInverseOp = isInverse\<rparr>
     in if GetOpName xop \<in> set (addRejected prim) then (prim, None)
        else (prim\<lparr>primAttrs :=
                      (if GetAttribute prim name = None then primAttrs prim @ [(name, VtEmpty)]
                       else primAttrs prim),
                    xformOpOrder := xformOpOrder prim @ [xop]\<rparr>,
              Some xop))"

section \<open>Ordered maps\<close>

text \<open>
  A \<open>std::map\<close> is the list of its entries in ascending key order. \<open>map_assign k v m\<close> is
  \<open>m[k] = v\<close>: it overwrites the entry of an existing key and inserts a new key at its
  place.
\<close>

fun map_assign :: "'k::linorder \<Rightarrow> 'v \<Rightarrow> ('k \<times> 'v) list \<Rightarrow> ('k \<times> 'v) list" where
  "map_assign k v [] = [(k, v)]"
| "map_assign k v ((k', v') # m) =
    (if k < k' then (k, v) # (k', v') # m
     else if k = k' then (k, v) # m
     else (k', v') # map_assign k v m)"

text \<open>\<open>m.find(k)\<close>, with \<open>None\<close> for \<open>end()\<close>, and \<open>m.at(k)\<close>, which throws.\<close>

definition map_find :: "('k \<times> 'v) list \<Rightarrow> 'k \<Rightarrow> 'v option" where
  "map_find m k = map_of m k"

definition map_at :: "('k \<times> 'v) list \<Rightarrow> 'k \<Rightarrow> error + 'v" where
  "map_at m k = (case map_of m k of None \<Rightarrow> Inl OutOfRange | Some v \<Rightarrow> Inr v)"

section \<open>Reordering the authored operations\<close>

text \<open>
  The loop shared by \<open>setXformOpOrder\<close> and \<open>getOrderedOps\<close>: each operation is filed
  under the position of its name; a name that the table lacks makes \<open>.at()\<close> throw.
\<close>

fun fileOps ::
  "UsdGeomXformOp list \<Rightarrow> (OpNdx \<times> UsdGeomXformOp) list \<Rightarrow> error + (OpNdx \<times> UsdGeomXformOp) list" where
  "fileOps [] orderedOps = Inr orderedOps"
| "fileOps (xop # ops) orderedOps =
    (case gOpNameToNdx_at (GetOpName xop) of
       Inl e \<Rightarrow> Inl e
     | Inr ndx \<Rightarrow> fileOps ops (map_assign ndx xop orderedOps))"

definition setXformOpOrder :: "'c UsdPrim \<Rightarrow> error + ('c UsdPrim \<times> bool)" where
  "setXformOpOrder xformable =
    (let (oldOrder, resets) = GetOrderedXformOps xformable
     in case fileOps oldOrder [] of
          Inl e \<Rightarrow> Inl e
        | Inr orderedOps \<Rightarrow> Inr (SetXformOpOrder xformable (map snd orderedOps) resets))"

text \<open>The canonical positions met when traversing a list of operations.\<close>

definition positionsOf :: "UsdGeomXformOp list \<Rightarrow> OpNdx option list" where
  "positionsOf ops = map (\<lambda>xop. gOpNameToNdx_find (GetOpName xop)) ops"

text \<open>
  The invariant of the filing loop, used in the proofs: the entries are in strictly
  ascending key order, and each entry holds an operation of \<open>S\<close> under the position
  of its name.
\<close>

definition filed :: "UsdGeomXformOp set \<Rightarrow> (OpNdx \<times> UsdGeomXformOp) list \<Rightarrow> bool" where
  "filed S m =
    (sorted_wrt (<) (map fst m) \<and>
     (\<forall>(k, xop) \<in> set m. xop \<in> S \<and> gOpNameToNdx_find (GetOpName xop) = Some k))"

text \<open>
  The operation that stands last in a list among those whose name resolves to a given
  position, if any.
\<close>

definition lastOpAt :: "UsdGeomXformOp list \<Rightarrow> OpNdx \<Rightarrow> UsdGeomXformOp option" where
  "lastOpAt ops ndx =
    (let atNdx = filter (\<lambda>xop. gOpNameToNdx_find (GetOpName xop) = Some ndx) ops
     in if atNdx = [] then None else Some (last atNdx))"

section \<open>The stack reader\<close>

text \<open>
  A stack instance is bound to one prim and keeps nothing between calls: each function
  below takes the prim as the store holds it at the time of the call.
\<close>

definition getOrderedOps :: "'c UsdPrim \<Rightarrow> error + (OpNdx \<times> UsdGeomXformOp) list" where
  "getOrderedOps xformable =
    (let (ops, resets) = GetOrderedXformOps xformable in fileOps ops [])"

definition hasOp :: "'c UsdPrim \<Rightarrow> OpNdx \<Rightarrow> error + bool" where
  "hasOp xformable ndx =
    (case getOrderedOps xformable of
       Inl e \<Rightarrow> Inl e
     | Inr orderedOps \<Rightarrow> Inr (map_find orderedOps ndx \<noteq> None))"

definition getOp :: "'c UsdPrim \<Rightarrow> OpNdx \<Rightarrow> error + UsdGeomXformOp" where
  "getOp xformable ndx =
    (case getOrderedOps xformable of
       Inl e \<Rightarrow> Inl e
     | Inr orderedOps \<Rightarrow> map_at orderedOps ndx)"

text \<open>
  Modelled from the spec: the tokens \<open>UsdMayaXformStackTokens\<close> are declared in
  \<open>mayaUsd/fileio/utils/xformStack.h\<close>, which is not among the sources. The specification
  calls them the attribute-name suffixes used when an operation is newly created; the text
  of each is taken to be its identifier, the suffix under which \<open>gOpNameToNdx\<close> lists the
  operation of that position.
\<close>

definition opSuffix_entries :: "(OpNdx \<times> TfToken) list" where
  "opSuffix_entries =
    [ (NdxRotatePivotTranslate, ''rotatePivotTranslate''),
      (NdxRotatePivot, ''rotatePivot''),
      (NdxRotateAxis, ''rotateAxis''),
      (NdxScalePivotTranslate, ''scalePivotTranslate''),
      (NdxScalePivot, ''scalePivot''),
      (NdxShear, ''shear'') ]"

definition getOpSuffix :: "OpNdx \<Rightarrow> error + TfToken" where
  "getOpSuffix ndx =
    (case map_of opSuffix_entries ndx of None \<Rightarrow> Inl OutOfRange | Some suffix \<Rightarrow> Inr suffix)"

definition getTRSOpSuffix :: TfToken where
  "getTRSOpSuffix = []"

text \<open>
  The rotation conversion functions are those of \<open>mayaUsd/ufe/RotationUtils.h\<close>, not
  among the sources; they are named here and applied through a parameter. In the two
  tables a \<open>None\<close> entry is the \<open>nullptr\<close> stored for \<open>xformOp:orient\<close>.
\<close>

datatype CvtRotXYZFromAttrFn =
  fromX | fromY | fromZ | fromXYZ | fromXZY | fromYXZ | fromYZX | fromZXY | fromZYX

datatype CvtRotXYZToAttrFn =
  toX | toY | toZ | toXYZ | toXZY | toYXZ | toYZX | toZXY | toZYX

definition cvtFromAttr_entries :: "(TfToken \<times> CvtRotXYZFromAttrFn option) list" where
  "cvtFromAttr_entries =
    [ (''xformOp:rotateX'', Some fromX), (''xformOp:rotateY'', Some fromY),
      (''xformOp:rotateZ'', Some fromZ), (''xformOp:rotateXYZ'', Some fromXYZ),
      (''xformOp:rotateXZY'', Some fromXZY), (''xformOp:rotateYXZ'', Some fromYXZ),
      (''xformOp:rotateYZX'', Some fromYZX), (''xformOp:rotateZXY'', Some fromZXY),
      (''xformOp:rotateZYX'', Some fromZYX), (''xformOp:orient'', None) ]"

definition getCvtRotXYZFromAttrFn :: "TfToken \<Rightarrow> error + CvtRotXYZFromAttrFn option" where
  "getCvtRotXYZFromAttrFn opName =
    (case map_of cvtFromAttr_entries opName of None \<Rightarrow> Inl OutOfRange | Some cvt \<Rightarrow> Inr cvt)"

definition cvtToAttr_entries :: "(TfToken \<times> CvtRotXYZToAttrFn option) list" where
  "cvtToAttr_entries =
    [ (''xformOp:rotateX'', Some toX), (''xformOp:rotateY'', Some toY),
      (''xformOp:rotateZ'', Some toZ), (''xformOp:rotateXYZ'', Some toXYZ),
      (''xformOp:rotateXZY'', Some toXZY), (''xformOp:rotateYXZ'', Some toYXZ),
      (''xformOp:rotateYZX'', Some toYZX), (''xformOp:rotateZXY'', Some toZXY),
      (''xformOp:rotateZYX'', Some toZYX), (''xformOp:orient'', None) ]"

definition getCvtRotXYZToAttrFn :: "TfToken \<Rightarrow> error + CvtRotXYZToAttrFn option" where
  "getCvtRotXYZToAttrFn opName =
    (case map_of cvtToAttr_entries opName of None \<Rightarrow> Inl OutOfRange | Some cvt \<Rightarrow> Inr cvt)"

text \<open>
  The value of an operation's attribute, empty when it has none. \<open>readVec V value\<close> is
  \<open>V v; op.Get(&v, time); return toUfe(v);\<close>: \<open>v\<close> is written only when the attribute
  holds a vector of the type \<open>V\<close>, and is indeterminate otherwise.
\<close>

definition opAttrValue :: "'c UsdPrim \<Rightarrow> UsdGeomXformOp \<Rightarrow> 'c VtValue" where
  "opAttrValue prim xop =
    (case GetAttribute prim (opAttrName xop) of None \<Rightarrow> VtEmpty | Some v \<Rightarrow> v)"

fun readVec :: "Precision \<Rightarrow> 'c VtValue \<Rightarrow> 'c Vector3d" where
  "readVec PrecisionFloat (VtVec3f x y z) = Vector3d x y z"
| "readVec PrecisionDouble (VtVec3d x y z) = Vector3d x y z"
| "readVec _ _ = Indeterminate"

definition getVector3d :: "Precision \<Rightarrow> 'c::zero UsdPrim \<Rightarrow> TfToken \<Rightarrow> 'c Vector3d" where
  "getVector3d V prim attrName =
    (case GetAttribute prim attrName of
       None \<Rightarrow> Vector3d 0 0 0
     | Some attr \<Rightarrow> if \<not> HasValue attr then Vector3d 0 0 0 else readVec V attr)"

definition translation :: "'c::zero UsdPrim \<Rightarrow> 'c Vector3d" where
  "translation prim = getVector3d PrecisionDouble prim (GetOpNameFor TypeTranslate getTRSOpSuffix)"

definition rotation ::
  "(CvtRotXYZFromAttrFn \<Rightarrow> 'c VtValue \<Rightarrow> 'c Vector3d) \<Rightarrow> 'c::zero UsdPrim \<Rightarrow> error + 'c Vector3d" where
  "rotation applyCvt prim =
    (case hasOp prim NdxRotate of
       Inl e \<Rightarrow> Inl e
     | Inr has \<Rightarrow>
         if \<not> has then Inr (Vector3d 0 0 0)
         else (case getOp prim NdxRotate of
                 Inl e \<Rightarrow> Inl e
               | Inr r \<Rightarrow>
                   if \<not> HasValue (opAttrValue prim r) then Inr (Vector3d 0 0 0)
                   else (case getCvtRotXYZFromAttrFn (GetOpName r) of
                           Inl e \<Rightarrow> Inl e
                         | Inr None \<Rightarrow> Inl NullFunctionCall
                         | Inr (Some cvt) \<Rightarrow> Inr (applyCvt cvt (opAttrValue prim r)))))"

definition scale :: "'c::{zero,one} UsdPrim \<Rightarrow> error + 'c Vector3d" where
  "scale prim =
    (case hasOp prim NdxScale of
       Inl e \<Rightarrow> Inl e
     | Inr has \<Rightarrow>
         if \<not> has then Inr (Vector3d 1 1 1)
         else (case getOp prim NdxScale of
                 Inl e \<Rightarrow> Inl e
               | Inr s \<Rightarrow>
                   if \<not> HasValue (opAttrValue prim s) then Inr (Vector3d 1 1 1)
                   else Inr (readVec PrecisionFloat (opAttrValue prim s))))"

text \<open>
  The four pivot accessors read the attribute named by the suffix of their position.
\<close>

definition getPivotVector3d :: "'c::zero UsdPrim \<Rightarrow> OpNdx \<Rightarrow> error + 'c Vector3d" where
  "getPivotVector3d prim ndx =
    (case getOpSuffix ndx of
       Inl e \<Rightarrow> Inl e
     | Inr suffix \<Rightarrow> Inr (getVector3d PrecisionFloat prim (GetOpNameFor TypeTranslate suffix)))"

definition rotatePivot :: "'c::zero UsdPrim \<Rightarrow> error + 'c Vector3d" where
  "rotatePivot prim = getPivotVector3d prim NdxRotatePivot"

definition scalePivot :: "'c::zero UsdPrim \<Rightarrow> error + 'c Vector3d" where
  "scalePivot prim = getPivotVector3d prim NdxScalePivot"

definition rotatePivotTranslation :: "'c::zero UsdPrim \<Rightarrow> error + 'c Vector3d" where
  "rotatePivotTranslation prim = getPivotVector3d prim NdxRotatePivotTranslate"

definition scalePivotTranslation :: "'c::zero UsdPrim \<Rightarrow> error + 'c Vector3d" where
  "scalePivotTranslation prim = getPivotVector3d prim NdxScalePivotTranslate"

section \<open>The selection gate\<close>

text \<open>
  A scene item pointer is \<open>None\<close> when null; \<open>dynamic_pointer_cast<UsdSceneItem>\<close>
  succeeds on a \<open>UsdSceneItem\<close> only.
\<close>

datatype 'c SceneItem = UsdSceneItem "'c UsdPrim" | OtherSceneItem

definition asUsdSceneItem :: "'c SceneItem option \<Rightarrow> 'c UsdPrim option" where
  "asUsdSceneItem item =
    (case item of Some (UsdSceneItem prim) \<Rightarrow> Some prim | _ \<Rightarrow> None)"

text \<open>
  What \<open>createTransform3d\<close> returns: a null pointer, a Maya transform stack interface
  bound to the prim, or whatever the next handler of the chain returned.
\<close>

datatype ('c, 'n) Transform3dPtr =
  NullTransform3d | MayaXformStack "'c UsdPrim" | FromNextHandler 'n

text \<open>\<open>UsdTransform3dMayaXformStack::create\<close>: the constructor throws on a prim that is
  not transformable.\<close>

definition create :: "'c UsdPrim \<Rightarrow> error + ('c, 'n) Transform3dPtr" where
  "create prim =
    (if \<not> primXformable prim then Inl (RuntimeError ''Invalid scene item for transform stack'')
     else Inr (MayaXformStack prim))"

fun hasValidSuffix :: "UsdGeomXformOp list \<Rightarrow> bool" where
  "hasValidSuffix [] = True"
| "hasValidSuffix (xformOp # xformOps) =
    (if gOpNameToNdx_find (GetName xformOp) = None then False else hasValidSuffix xformOps)"

text \<open>
  \<open>UsdMayaXformStack::MayaStack().MatchingSubstack\<close> belongs to
  \<open>mayaUsd/fileio/utils/xformStack\<close>, not among the sources: it is the parameter
  \<open>matchingSubstack\<close>, of which only the emptiness of the result is used.
\<close>

definition createTransform3d ::
  "(UsdGeomXformOp list \<Rightarrow> 's list) \<Rightarrow> 'c SceneItem option \<Rightarrow> 'n \<Rightarrow> error + ('c, 'n) Transform3dPtr" where
  "createTransform3d matchingSubstack item nextTransform3d =
    (case asUsdSceneItem item of
       None \<Rightarrow> Inr NullTransform3d
     | Some prim \<Rightarrow>
         if \<not> primXformable prim then Inr NullTransform3d
         else let (xformOps, resets) = GetOrderedXformOps prim
              in if xformOps = [] then create prim
                 else if \<not> hasValidSuffix xformOps then Inr (FromNextHandler nextTransform3d)
                 else if matchingSubstack xformOps = [] then Inr (FromNextHandler nextTransform3d)
                 else create prim)"

section \<open>Edit commands\<close>

text \<open>
  An \<open>OpFunc\<close> is one of the four lambdas built by the command factories, with its
  captured values: the attribute name and the operation suffix (and, for
  \<open>setVector3dCmd\<close>, the precision of the vector type). All four capture the same
  \<open>setXformOpOrderFn\<close>, which \<open>getXformOpOrderFn\<close> gives as \<open>setXformOpOrder\<close>.
\<close>

datatype OpFunc =
    RotateOpFunc TfToken TfToken
  | ScaleOpFunc TfToken TfToken
  | Vector3dOpFunc Precision TfToken TfToken
  | PivotOpFunc TfToken TfToken

datatype CmdClass =
    UsdVecOpUndoableCmd Precision
  | UsdRotateOpUndoableCmd "CvtRotXYZToAttrFn option"

text \<open>
  A command of the classes derived from \<open>UsdTRSUndoableCmdBase\<close>: the value to apply,
  the cached operation handle \<open>_op\<close> (\<open>None\<close> while default-constructed) and the
  \<open>_opFunc\<close>. The path of the command is represented by the scene item it resolves to
  when the command runs.
\<close>

record 'c UsdTRSUndoableCmd =
  cmdClass :: CmdClass
  newOpValue :: "'c VtValue"
  cmdOp :: "UsdGeomXformOp option"
  cmdOpFunc :: OpFunc

text \<open>
  Modelled from the spec: \<open>UsdUndoableItem\<close> and \<open>UsdUndoBlock\<close> belong to
  \<open>usdUfe/undo\<close>, not among the sources. The specification describes the block as a
  scoped transaction that records the edits made in its scope for undo (section 6), and
  through which a failure thrown in its scope is rolled back, so that no partially applied
  structural change is left (sections 4.4, 5 and 7). The item holds, newest first, the
  states to restore on undo. The notification guard \<open>InTransform3dChange\<close> only
  coalesces notifications; the model has no observers inside a scope and leaves it out.
\<close>

type_synonym 'c UsdUndoableItem = "'c UsdPrim list"

definition UsdUndoBlock ::
  "'c UsdUndoableItem \<Rightarrow> 'c UsdPrim \<Rightarrow> ('c UsdPrim \<Rightarrow> 'c UsdPrim \<times> (error + 'a)) \<Rightarrow>
   'c UsdUndoableItem \<times> 'c UsdPrim \<times> (error + 'a)" where
  "UsdUndoBlock undoableItem prim body =
    (case body prim of
       (prim', Inl e) \<Rightarrow> (undoableItem, prim, Inl e)
     | (prim', Inr r) \<Rightarrow> (prim # undoableItem, prim', Inr r))"

definition getUsdPrimAttribute :: "'c UsdPrim \<Rightarrow> TfToken \<Rightarrow> 'c VtValue option" where
  "getUsdPrimAttribute prim attrName =
    (if attrName \<noteq> [] then GetAttribute prim attrName else None)"

text \<open>\<open>UsdGeomXformOp(attr)\<close>: the operation of an attribute, not inverted.\<close>

definition opOfAttr :: "TfToken \<Rightarrow> UsdGeomXformOp" where
  "opOfAttr attrName = \<lparr>opAttrName = attrName, isInverseOp = False\<rparr>"

text \<open>
  The creating branch of the lambdas of \<open>rotateCmd\<close>, \<open>scaleCmd\<close> and
  \<open>setVector3dCmd\<close>, which differ in the operation added and in the texts thrown. The
  state returned beside an error is the state at the throw.
\<close>

definition addOpAndReorder ::
  "OpType \<Rightarrow> Precision \<Rightarrow> TfToken \<Rightarrow> string \<Rightarrow> string \<Rightarrow> 'c UsdPrim \<Rightarrow>
   'c UsdPrim \<times> (error + UsdGeomXformOp)" where
  "addOpAndReorder ty prec opSuffix addText setText xformable =
    (let (xformable1, r) = AddXformOp xformable ty prec opSuffix False
     in case r of
          None \<Rightarrow> (xformable1, Inl (RuntimeError addText))
        | Some xop \<Rightarrow>
            (case setXformOpOrder xformable1 of
               Inl e \<Rightarrow> (xformable1, Inl e)
             | Inr (xformable2, ok) \<Rightarrow>
                 if \<not> ok then (xformable2, Inl (RuntimeError setText))
                 else (xformable2, Inr xop)))"

text \<open>The creating branch of the lambda of \<open>pivotCmd\<close>.\<close>

definition addPivotAndReorder ::
  "TfToken \<Rightarrow> 'c UsdPrim \<Rightarrow> 'c UsdPrim \<times> (error + UsdGeomXformOp)" where
  "addPivotAndReorder pvtOpSuffix xformable =
    (let (xformable1, p) = AddXformOp xformable TypeTranslate PrecisionFloat pvtOpSuffix False;
         (xformable2, pInv) = AddXformOp xformable1 TypeTranslate PrecisionFloat pvtOpSuffix True
     in case (p, pInv) of
          (Some pop, Some pInvOp) \<Rightarrow>
            (case setXformOpOrder xformable2 of
               Inl e \<Rightarrow> (xformable2, Inl e)
             | Inr (xformable3, ok) \<Rightarrow>
                 if \<not> ok
                 then (xformable3, Inl (RuntimeError ''Cannot set translation transform operation''))
                 else (xformable3, Inr pop))
        | _ \<Rightarrow> (xformable2, Inl (RuntimeError ''Cannot add translation transform operation'')))"

text \<open>
  The pair of operations that \<open>pivotCmd\<close> creates for a suffix: the forward pivot
  translate operation and its inverse.
\<close>

definition pivotOp :: "TfToken \<Rightarrow> UsdGeomXformOp" where
  "pivotOp pvtOpSuffix =
    \<lparr>opAttrName = GetOpNameFor TypeTranslate pvtOpSuffix, isInverseOp = False\<rparr>"


text \<open>
  Calling an \<open>OpFunc\<close>. \<open>SceneItemHolder\<close> throws when the command's scene item is not
  a \<open>UsdSceneItem\<close>. An existing attribute is wrapped and returned; otherwise the
  operation is created inside the undo block.
\<close>

definition inUndoBlock ::
  "'c UsdUndoableItem \<Rightarrow> 'c UsdPrim \<Rightarrow> ('c UsdPrim \<Rightarrow> 'c UsdPrim \<times> (error + UsdGeomXformOp)) \<Rightarrow>
   'c UsdUndoableItem \<times> 'c SceneItem option \<times> (error + UsdGeomXformOp)" where
  "inUndoBlock undoableItem prim body =
    (case UsdUndoBlock undoableItem prim body of
       (undoableItem', prim', r) \<Rightarrow> (undoableItem', Some (UsdSceneItem prim'), r))"

fun callOpFunc ::
  "OpFunc \<Rightarrow> 'c SceneItem option \<Rightarrow> 'c UsdUndoableItem \<Rightarrow>
   'c UsdUndoableItem \<times> 'c SceneItem option \<times> (error + UsdGeomXformOp)" where
  "callOpFunc (RotateOpFunc attrName opSuffix) item undoableItem =
    (case asUsdSceneItem item of
       None \<Rightarrow> (undoableItem, item, Inl (RuntimeError ''Cannot transform invalid scene item''))
     | Some prim \<Rightarrow>
         if getUsdPrimAttribute prim attrName \<noteq> None
         then (undoableItem, item, Inr (opOfAttr attrName))
         else inUndoBlock undoableItem prim
                (addOpAndReorder TypeRotateXYZ PrecisionFloat opSuffix
                   ''Cannot add rotation transform operation''
                   ''Cannot set rotation transform operation''))"
| "callOpFunc (ScaleOpFunc attrName opSuffix) item undoableItem =
    (case asUsdSceneItem item of
       None \<Rightarrow> (undoableItem, item, Inl (RuntimeError ''Cannot transform invalid scene item''))
     | Some prim \<Rightarrow>
         if getUsdPrimAttribute prim attrName \<noteq> None
         then (undoableItem, item, Inr (opOfAttr attrName))
         else inUndoBlock undoableItem prim
                (addOpAndReorder TypeScale PrecisionFloat opSuffix
                   ''Cannot add scaling transform operation''
                   ''Cannot set scaling transform operation''))"
| "callOpFunc (Vector3dOpFunc V attrName opSuffix) item undoableItem =
    (case asUsdSceneItem item of
       None \<Rightarrow> (undoableItem, item, Inl (RuntimeError ''Cannot transform invalid scene item''))
     | Some prim \<Rightarrow>
         if getUsdPrimAttribute prim attrName \<noteq> None
         then (undoableItem, item, Inr (opOfAttr attrName))
         else inUndoBlock undoableItem prim
                (addOpAndReorder TypeTranslate V opSuffix
                   ''Cannot add translation transform operation''
                   ''Cannot set translation transform operation''))"
| "callOpFunc (PivotOpFunc pvtAttrName pvtOpSuffix) item undoableItem =
    (case asUsdSceneItem item of
       None \<Rightarrow> (undoableItem, item, Inl (RuntimeError ''Cannot transform invalid scene item''))
     | Some prim \<Rightarrow>
         if GetAttribute prim pvtAttrName \<noteq> None
         then (undoableItem, item, Inr (opOfAttr pvtAttrName))
         else inUndoBlock undoableItem prim (addPivotAndReorder pvtOpSuffix))"

text \<open>
  \<open>if (_op)\<close>: a handle is valid when it has been assigned and its attribute exists on
  the prim.
\<close>

definition opIsValid :: "'c SceneItem option \<Rightarrow> UsdGeomXformOp option \<Rightarrow> bool" where
  "opIsValid item xop =
    (case (asUsdSceneItem item, xop) of
       (Some prim, Some x) \<Rightarrow> GetAttribute prim (opAttrName x) \<noteq> None
     | _ \<Rightarrow> False)"

text \<open>
  \<open>createOpIfNeeded\<close>: the last component of the result is the exception that left the
  function, if any.
\<close>

definition createOpIfNeeded ::
  "'c UsdTRSUndoableCmd \<Rightarrow> 'c UsdUndoableItem \<Rightarrow> 'c SceneItem option \<Rightarrow>
   'c UsdTRSUndoableCmd \<times> 'c UsdUndoableItem \<times> 'c SceneItem option \<times> error option" where
  "createOpIfNeeded cmd undoableItem item =
    (if opIsValid item (cmdOp cmd) then (cmd, undoableItem, item, None)
     else (case callOpFunc (cmdOpFunc cmd) item undoableItem of
             (undoableItem', item', Inl e) \<Rightarrow> (cmd, undoableItem', item', Some e)
           | (undoableItem', item', Inr xop) \<Rightarrow>
               (cmd\<lparr>cmdOp := Some xop\<rparr>, undoableItem', item', None)))"

section \<open>Command factories\<close>

text \<open>
  Modelled from the spec: \<open>UsdUfe::isAttributeEditAllowed\<close> belongs to
  \<open>usdUfe/ufe/Utils\<close>, not among the sources. The specification gives it as the
  editability predicate of the store, \<open>isEditable(attribute) -> (bool, reason)\<close>; here
  the prim lists the attributes that are not editable, each with the reason. The
  order-defining attribute is \<open>xformOpOrder\<close>.
\<close>

definition UsdUfe_isAttributeEditAllowed :: "'c UsdPrim \<Rightarrow> TfToken \<Rightarrow> bool \<times> string" where
  "UsdUfe_isAttributeEditAllowed prim attrName =
    (case map_of (editForbidden prim) attrName of
       None \<Rightarrow> (True, [])
     | Some reason \<Rightarrow> (False, reason))"

definition isAttributeEditAllowed :: "'c UsdPrim \<Rightarrow> TfToken \<Rightarrow> bool \<times> string" where
  "isAttributeEditAllowed prim attrName =
    (let attr = (if attrName \<noteq> [] then GetAttribute prim attrName else None)
     in if attr \<noteq> None \<and> \<not> fst (UsdUfe_isAttributeEditAllowed prim attrName)
        then (False, snd (UsdUfe_isAttributeEditAllowed prim attrName))
        else if attr = None
        then (if \<not> fst (UsdUfe_isAttributeEditAllowed prim ''xformOpOrder'')
              then (False, snd (UsdUfe_isAttributeEditAllowed prim ''xformOpOrder''))
              else (True, []))
        else (True, []))"

text \<open>
  A factory yields the prim as it leaves it, the messages shown with
  \<open>MGlobal::displayError\<close> and the command pointer, \<open>None\<close> for \<open>nullptr\<close>; or the
  exception that left it.
\<close>

type_synonym 'c CmdResult = "'c UsdPrim \<times> string list \<times> 'c UsdTRSUndoableCmd option"

definition opAt :: "'c UsdPrim \<Rightarrow> OpNdx \<Rightarrow> error + UsdGeomXformOp option" where
  "opAt prim ndx =
    (case hasOp prim ndx of
       Inl e \<Rightarrow> Inl e
     | Inr has \<Rightarrow>
         if has then (case getOp prim ndx of Inl e \<Rightarrow> Inl e | Inr xop \<Rightarrow> Inr (Some xop))
         else Inr None)"

definition rotateCmd ::
  "('c \<Rightarrow> 'c) \<Rightarrow> 'c UsdPrim \<Rightarrow> 'c \<Rightarrow> 'c \<Rightarrow> 'c \<Rightarrow> error + 'c CmdResult" where
  "rotateCmd narrow prim x y z =
    (case opAt prim NdxRotate of
       Inl e \<Rightarrow> Inl e
     | Inr rop \<Rightarrow>
         let attrName = (case rop of None \<Rightarrow> [] | Some r \<Rightarrow> GetOpName r);
             (allowed, errMsg) = isAttributeEditAllowed prim attrName
         in if \<not> allowed then Inr (prim, [errMsg], None)
            else (case (case rop of
                          None \<Rightarrow> Inr (Some toXYZ)
                        | Some r \<Rightarrow> getCvtRotXYZToAttrFn (GetOpName r)) of
                    Inl e \<Rightarrow> Inl e
                  | Inr cvt \<Rightarrow>
                      Inr (prim, [],
                           Some \<lparr>cmdClass = UsdRotateOpUndoableCmd cvt,
                                 newOpValue = GfVec3f narrow x y z,
                                 cmdOp = None,
                                 cmdOpFunc = RotateOpFunc attrName getTRSOpSuffix\<rparr>)))"

definition scaleCmd ::
  "('c \<Rightarrow> 'c) \<Rightarrow> 'c UsdPrim \<Rightarrow> 'c \<Rightarrow> 'c \<Rightarrow> 'c \<Rightarrow> error + 'c CmdResult" where
  "scaleCmd narrow prim x y z =
    (case opAt prim NdxScale of
       Inl e \<Rightarrow> Inl e
     | Inr sop \<Rightarrow>
         let attrName = (case sop of None \<Rightarrow> [] | Some s \<Rightarrow> GetOpName s);
             (allowed, errMsg) = isAttributeEditAllowed prim attrName
         in if \<not> allowed then Inr (prim, [errMsg], None)
            else Inr (prim, [],
                      Some \<lparr>cmdClass = UsdVecOpUndoableCmd PrecisionFloat,
                            newOpValue = GfVec3f narrow x y z,
                            cmdOp = None,
                            cmdOpFunc = ScaleOpFunc attrName getTRSOpSuffix\<rparr>))"

definition setVector3dCmd ::
  "'c UsdPrim \<Rightarrow> Precision \<Rightarrow> 'c VtValue \<Rightarrow> TfToken \<Rightarrow> TfToken \<Rightarrow> 'c CmdResult" where
  "setVector3dCmd prim V v attrName opSuffix =
    (let (allowed, errMsg) = isAttributeEditAllowed prim attrName
     in if \<not> allowed then (prim, [errMsg], None)
        else (prim, [],
              Some \<lparr>cmdClass = UsdVecOpUndoableCmd V,
                    newOpValue = v,
                    cmdOp = None,
                    cmdOpFunc = Vector3dOpFunc V attrName opSuffix\<rparr>))"

definition pivotCmd ::
  "('c \<Rightarrow> 'c) \<Rightarrow> 'c UsdPrim \<Rightarrow> TfToken \<Rightarrow> 'c \<Rightarrow> 'c \<Rightarrow> 'c \<Rightarrow> 'c CmdResult" where
  "pivotCmd narrow prim pvtOpSuffix x y z =
    (let pvtAttrName = GetOpNameFor TypeTranslate pvtOpSuffix;
         (allowed, errMsg) = isAttributeEditAllowed prim pvtAttrName
     in if \<not> allowed then (prim, [errMsg], None)
        else (prim, [],
              Some \<lparr>cmdClass = UsdVecOpUndoableCmd PrecisionFloat,
                    newOpValue = GfVec3f narrow x y z,
                    cmdOp = None,
                    cmdOpFunc = PivotOpFunc pvtAttrName pvtOpSuffix\<rparr>))"

definition translateCmd :: "'c UsdPrim \<Rightarrow> 'c \<Rightarrow> 'c \<Rightarrow> 'c \<Rightarrow> 'c CmdResult" where
  "translateCmd prim x y z =
    setVector3dCmd prim PrecisionDouble (VtVec3d x y z)
      (GetOpNameFor TypeTranslate getTRSOpSuffix) getTRSOpSuffix"

definition rotatePivotCmd ::
  "('c \<Rightarrow> 'c) \<Rightarrow> 'c UsdPrim \<Rightarrow> 'c \<Rightarrow> 'c \<Rightarrow> 'c \<Rightarrow> error + 'c CmdResult" where
  "rotatePivotCmd narrow prim x y z =
    (case getOpSuffix NdxRotatePivot of
       Inl e \<Rightarrow> Inl e
     | Inr suffix \<Rightarrow> Inr (pivotCmd narrow prim suffix x y z))"

definition scalePivotCmd ::
  "('c \<Rightarrow> 'c) \<Rightarrow> 'c UsdPrim \<Rightarrow> 'c \<Rightarrow> 'c \<Rightarrow> 'c \<Rightarrow> error + 'c CmdResult" where
  "scalePivotCmd narrow prim x y z =
    (case getOpSuffix NdxScalePivot of
       Inl e \<Rightarrow> Inl e
     | Inr suffix \<Rightarrow> Inr (pivotCmd narrow prim suffix x y z))"

definition translateRotatePivotCmd ::
  "('c \<Rightarrow> 'c) \<Rightarrow> 'c UsdPrim \<Rightarrow> 'c \<Rightarrow> 'c \<Rightarrow> 'c \<Rightarrow> error + 'c CmdResult" where
  "translateRotatePivotCmd narrow prim x y z =
    (case getOpSuffix NdxRotatePivotTranslate of
       Inl e \<Rightarrow> Inl e
     | Inr opSuffix \<Rightarrow>
         Inr (setVector3dCmd prim PrecisionFloat (GfVec3f narrow x y z)
                (GetOpNameFor TypeTranslate opSuffix) opSuffix))"

definition translateScalePivotCmd ::
  "('c \<Rightarrow> 'c) \<Rightarrow> 'c UsdPrim \<Rightarrow> 'c \<Rightarrow> 'c \<Rightarrow> 'c \<Rightarrow> error + 'c CmdResult" where
  "translateScalePivotCmd narrow prim x y z =
    (case getOpSuffix NdxScalePivotTranslate of
       Inl e \<Rightarrow> Inl e
     | Inr opSuffix \<Rightarrow>
         Inr (setVector3dCmd prim PrecisionFloat (GfVec3f narrow x y z)
                (GetOpNameFor TypeTranslate opSuffix) opSuffix))"

section \<open>Notions used in the statements\<close>

text \<open>
  Every authored operation has a name that resolves in \<open>gOpNameToNdx\<close>; the
  operation of the authored list that stands at a position (the last one, when several
  resolve to it), and its value.
\<close>

definition allNamesResolve :: "'c UsdPrim \<Rightarrow> bool" where
  "allNamesResolve prim =
    list_all (\<lambda>xop. gOpNameToNdx_find (GetOpName xop) \<noteq> None) (fst (GetOrderedXformOps prim))"

definition authoredOpAt :: "'c UsdPrim \<Rightarrow> OpNdx \<Rightarrow> UsdGeomXformOp option" where
  "authoredOpAt prim ndx = lastOpAt (fst (GetOrderedXformOps prim)) ndx"

text \<open>
  An attribute, or the value of an operation, is absent or has never been written.
\<close>

definition absentOrUnwritten :: "'c VtValue option \<Rightarrow> bool" where
  "absentOrUnwritten attr = (case attr of None \<Rightarrow> True | Some v \<Rightarrow> \<not> HasValue v)"

definition opValueAt :: "'c UsdPrim \<Rightarrow> OpNdx \<Rightarrow> 'c VtValue option" where
  "opValueAt prim ndx = map_option (opAttrValue prim) (authoredOpAt prim ndx)"

text \<open>
  The attribute that \<open>rotateCmd\<close> and \<open>scaleCmd\<close> target is the one of the
  operation at their position, and the empty token when there is none. An edit is not
  allowed when the target attribute exists and is not editable, or does not exist yet and
  the attribute \<open>xformOpOrder\<close> is not editable; the message is the reason the store
  gives for that attribute.
\<close>

definition targetOf :: "'c UsdPrim \<Rightarrow> OpNdx \<Rightarrow> TfToken" where
  "targetOf prim ndx = (case authoredOpAt prim ndx of None \<Rightarrow> [] | Some xop \<Rightarrow> GetOpName xop)"

definition targetExists :: "'c UsdPrim \<Rightarrow> TfToken \<Rightarrow> bool" where
  "targetExists prim attrName = (attrName \<noteq> [] \<and> GetAttribute prim attrName \<noteq> None)"

definition targetNotEditable :: "'c UsdPrim \<Rightarrow> TfToken \<Rightarrow> bool" where
  "targetNotEditable prim attrName =
    (if targetExists prim attrName then \<not> fst (UsdUfe_isAttributeEditAllowed prim attrName)
     else \<not> fst (UsdUfe_isAttributeEditAllowed prim ''xformOpOrder''))"

definition denialMessage :: "'c UsdPrim \<Rightarrow> TfToken \<Rightarrow> string" where
  "denialMessage prim attrName =
    (if targetExists prim attrName then snd (UsdUfe_isAttributeEditAllowed prim attrName)
     else snd (UsdUfe_isAttributeEditAllowed prim ''xformOpOrder''))"

text \<open>
  Two or more operations of a list resolve to the same canonical position.
\<close>

definition sharesPosition :: "UsdGeomXformOp list \<Rightarrow> bool" where
  "sharesPosition ops = (\<not> distinct (filter (\<lambda>p. p \<noteq> None) (positionsOf ops)))"


section \<open>Example entities\<close>

text \<open>
  The examples take the integers as scalars. Their stand-in for the conversion from
  double to float rounds down to an even number.
\<close>

definition narrowToEven :: "int \<Rightarrow> int" where
  "narrowToEven x = 2 * (x div 2)"

text \<open>
  A prim whose three operations are authored in the reverse of the canonical order.
\<close>

definition unsortedPrim :: "int UsdPrim" where
  "unsortedPrim =
    \<lparr> primXformable = True,
      primAttrs = [(''xformOp:scale'', VtVec3f 2 2 2), (''xformOp:rotateXYZ'', VtEmpty),
                   (''xformOp:translate'', VtVec3d 1 2 3)],
      xformOpOrder = [\<lparr>opAttrName = ''xformOp:scale'', isInverseOp = False\<rparr>,
                      \<lparr>opAttrName = ''xformOp:rotateXYZ'', isInverseOp = False\<rparr>,
                      \<lparr>opAttrName = ''xformOp:translate'', isInverseOp = False\<rparr>],
      resetsXformStack = False,
      editForbidden = [],
      addRejected = [],
      orderWriteRejected = False \<rparr>"

text \<open>The same prim with its three operations in canonical order.\<close>

definition sortedPrim :: "int UsdPrim" where
  "sortedPrim =
    unsortedPrim
      \<lparr>xformOpOrder := [\<lparr>opAttrName = ''xformOp:translate'', isInverseOp = False\<rparr>,
                       \<lparr>opAttrName = ''xformOp:rotateXYZ'', isInverseOp = False\<rparr>,
                       \<lparr>opAttrName = ''xformOp:scale'', isInverseOp = False\<rparr>]\<rparr>"

text \<open>A transformable prim with no attribute and no operation.\<close>

definition emptyPrim :: "int UsdPrim" where
  "emptyPrim =
    \<lparr> primXformable = True, primAttrs = [], xformOpOrder = [], resetsXformStack = False,
      editForbidden = [], addRejected = [], orderWriteRejected = False \<rparr>"

text \<open>
  A prim with a translate operation and a matrix operation \<open>xformOp:transform\<close>,
  whose name the table lacks; its order attribute is not editable.
\<close>

definition matrixPrim :: "int UsdPrim" where
  "matrixPrim =
    \<lparr> primXformable = True,
      primAttrs = [(''xformOp:translate'', VtVec3d 1 2 3), (''xformOp:transform'', VtEmpty)],
      xformOpOrder = [\<lparr>opAttrName = ''xformOp:translate'', isInverseOp = False\<rparr>,
                      \<lparr>opAttrName = ''xformOp:transform'', isInverseOp = False\<rparr>],
      resetsXformStack = False,
      editForbidden = [(''xformOpOrder'', ''locked'')], addRejected = [], orderWriteRejected = False \<rparr>"

text \<open>A prim with two operations that both resolve to the rotate position.\<close>

definition twoRotatesPrim :: "int UsdPrim" where
  "twoRotatesPrim =
    \<lparr> primXformable = True,
      primAttrs = [(''xformOp:rotateX'', VtVec3f 90 0 0), (''xformOp:rotateXYZ'', VtVec3f 1 2 3)],
      xformOpOrder = [\<lparr>opAttrName = ''xformOp:rotateX'', isInverseOp = False\<rparr>,
                      \<lparr>opAttrName = ''xformOp:rotateXYZ'', isInverseOp = False\<rparr>],
      resetsXformStack = False,
      editForbidden = [], addRejected = [], orderWriteRejected = False \<rparr>"

text \<open>
  A prim with a translate operation, on which the store rejects the creation of the
  inverse scale pivot operation.
\<close>

definition rejectingPrim :: "int UsdPrim" where
  "rejectingPrim =
    \<lparr> primXformable = True,
      primAttrs = [(''xformOp:translate'', VtVec3d 1 2 3)],
      xformOpOrder = [\<lparr>opAttrName = ''xformOp:translate'', isInverseOp = False\<rparr>],
      resetsXformStack = False,
      editForbidden = [],
      addRejected = [''!invert!xformOp:translate:scalePivot''],
      orderWriteRejected = False \<rparr>"

text \<open>
  The empty prim after a rotate pivot and its inverse have been created, and the command
  that \<open>pivotCmd\<close> builds for the rotate pivot on the empty prim when the narrowed
  value is \<open>(1, 2, 3)\<close>.
\<close>

definition pivotedPrim :: "int UsdPrim" where
  "pivotedPrim =
    \<lparr> primXformable = True,
      primAttrs = [(''xformOp:translate:rotatePivot'', VtEmpty)],
      xformOpOrder = [\<lparr>opAttrName = ''xformOp:translate:rotatePivot'', isInverseOp = False\<rparr>,
                      \<lparr>opAttrName = ''xformOp:translate:rotatePivot'', isInverseOp = True\<rparr>],
      resetsXformStack = False,
      editForbidden = [], addRejected = [], orderWriteRejected = False \<rparr>"

definition rotatePivotCommand :: "int UsdTRSUndoableCmd" where
  "rotatePivotCommand =
    \<lparr> cmdClass = UsdVecOpUndoableCmd PrecisionFloat,
      newOpValue = VtVec3f 1 2 3,
      cmdOp = None,
      cmdOpFunc = PivotOpFunc ''xformOp:translate:rotatePivot'' ''rotatePivot'' \<rparr>"

text \<open>
  A prim whose translate attribute has a value but is not in the authored order, which
  holds a matrix operation only.
\<close>

definition strayPrim :: "int UsdPrim" where
  "strayPrim =
    \<lparr> primXformable = True,
      primAttrs = [(''xformOp:translate'', VtVec3d 1 2 3), (''xformOp:transform'', VtEmpty)],
      xformOpOrder = [\<lparr>opAttrName = ''xformOp:transform'', isInverseOp = False\<rparr>],
      resetsXformStack = False,
      editForbidden = [], addRejected = [], orderWriteRejected = False \<rparr>"

text \<open>
  A prim with a translate and a \<open>rotateZYX\<close> operation, on which neither the rotate
  attribute nor the order attribute is editable.
\<close>

definition lockedPrim :: "int UsdPrim" where
  "lockedPrim =
    \<lparr> primXformable = True,
      primAttrs = [(''xformOp:translate'', VtVec3d 1 2 3), (''xformOp:rotateZYX'', VtVec3f 30 20 10)],
      xformOpOrder = [\<lparr>opAttrName = ''xformOp:translate'', isInverseOp = False\<rparr>,
                      \<lparr>opAttrName = ''xformOp:rotateZYX'', isInverseOp = False\<rparr>],
      resetsXformStack = False,
      editForbidden = [(''xformOp:rotateZYX'', ''rotate is locked''),
                       (''xformOpOrder'', ''order is locked'')],
      addRejected = [], orderWriteRejected = False \<rparr>"

text \<open>A prim whose rotate operation is \<open>xformOp:orient\<close>.\<close>

definition orientPrim :: "int UsdPrim" where
  "orientPrim =
    \<lparr> primXformable = True,
      primAttrs = [(''xformOp:orient'', VtVec3f 0 0 1)],
      xformOpOrder = [\<lparr>opAttrName = ''xformOp:orient'', isInverseOp = False\<rparr>],
      resetsXformStack = False,
      editForbidden = [], addRejected = [], orderWriteRejected = False \<rparr>"



section \<open>Properties of the ordered map and of the reordering\<close>

lemma map_assign_keys: "fst ` set (map_assign k v m) = insert k (fst ` set m)"
proof (induction m)
  case Nil
  show ?case by simp
next
  case (Cons e m)
  obtain k' v' where e: "e = (k', v')" by (cases e)
  show ?case using Cons.IH by (simp add: e insert_commute)
qed

lemma map_assign_sorted:
  "sorted_wrt (<) (map fst m) \<Longrightarrow> sorted_wrt (<) (map fst (map_assign k v m))"
proof (induction m)
  case Nil
  then show ?case by simp
next
  case (Cons e m)
  obtain k' v' where e: "e = (k', v')" by (cases e)
  show ?case
  proof (cases "k < k'")
    case True
    with Cons.prems e show ?thesis by (auto intro: less_trans)
  next
    case False
    note nlt = this
    show ?thesis
    proof (cases "k = k'")
      case True
      with Cons.prems e show ?thesis by simp
    next
      case False
      with nlt have "k' < k" by simp
      moreover from Cons.prems e have "sorted_wrt (<) (map fst m)" by simp
      ultimately show ?thesis
        using Cons.prems e nlt False Cons.IH
        by (auto simp: map_assign_keys)
    qed
  qed
qed

lemma map_assign_values: "set (map_assign k v m) \<subseteq> insert (k, v) (set m)"
proof (induction m)
  case Nil
  show ?case by simp
next
  case (Cons e m)
  obtain k' v' where e: "e = (k', v')" by (cases e)
  show ?case using Cons.IH by (auto simp: e)
qed

lemma filed_assign:
  assumes "filed S m" and "xop \<in> S" and "gOpNameToNdx_find (GetOpName xop) = Some k"
  shows "filed S (map_assign k xop m)"
  using assms map_assign_values [of k xop m]
  by (auto simp: filed_def map_assign_sorted)

lemma fileOps_filed:
  "filed S m \<Longrightarrow> set ops \<subseteq> S \<Longrightarrow> fileOps ops m = Inr m' \<Longrightarrow> filed S m'"
proof (induction ops arbitrary: m)
  case Nil
  then show ?case by simp
next
  case (Cons xop ops)
  from Cons.prems(3) obtain k where k: "gOpNameToNdx_find (GetOpName xop) = Some k"
    and rest: "fileOps ops (map_assign k xop m) = Inr m'"
    by (auto simp: gOpNameToNdx_at_def split: option.splits sum.splits)
  from Cons.prems(1,2) k have "filed S (map_assign k xop m)"
    by (intro filed_assign) auto
  with Cons.IH rest Cons.prems(2) show ?case by auto
qed

lemma fileOps_succeeds:
  "\<forall>xop \<in> set ops. gOpNameToNdx_find (GetOpName xop) \<noteq> None \<Longrightarrow> \<exists>m'. fileOps ops m = Inr m'"
  by (induction ops arbitrary: m) (auto simp: gOpNameToNdx_at_def split: option.splits)

lemma filed_positions:
  "filed S m \<Longrightarrow> positionsOf (map snd m) = map Some (map fst m)"
  by (induction m) (auto simp: filed_def positionsOf_def)

lemma GetOrderedXformOps_after_write:
  assumes "set newOrder \<subseteq> set (fst (GetOrderedXformOps prim))"
    and "SetXformOpOrder prim newOrder resets = (prim', True)"
  shows "fst (GetOrderedXformOps prim') = newOrder"
proof -
  from assms(2) have p': "prim' = prim\<lparr>xformOpOrder := newOrder, resetsXformStack := resets\<rparr>"
    by (auto simp: SetXformOpOrder_def split: if_splits)
  from assms(1) have "\<forall>xop \<in> set newOrder. GetAttribute prim (opAttrName xop) \<noteq> None"
    by (auto simp: GetOrderedXformOps_def)
  then show ?thesis
    by (simp add: p' GetOrderedXformOps_def GetAttribute_def)
qed

lemma filed_empty: "filed S []"
  by (simp add: filed_def)

lemma filed_values: "filed S m \<Longrightarrow> set (map snd m) \<subseteq> S"
  by (auto simp: filed_def)

lemma map_of_map_assign: "map_of (map_assign k v m) = (map_of m)(k \<mapsto> v)"
  by (induction m) auto

lemma lastOpAt_Nil: "lastOpAt [] ndx = None"
  by (simp add: lastOpAt_def)

lemma lastOpAt_Cons:
  "lastOpAt (xop # ops) ndx =
    (case lastOpAt ops ndx of
       Some y \<Rightarrow> Some y
     | None \<Rightarrow> if gOpNameToNdx_find (GetOpName xop) = Some ndx then Some xop else None)"
  by (simp add: lastOpAt_def Let_def)

lemma fileOps_map_of:
  "fileOps ops m = Inr m' \<Longrightarrow>
   map_of m' ndx = (case lastOpAt ops ndx of None \<Rightarrow> map_of m ndx | Some y \<Rightarrow> Some y)"
proof (induction ops arbitrary: m)
  case Nil
  then show ?case by (simp add: lastOpAt_Nil)
next
  case (Cons xop ops)
  from Cons.prems obtain k where k: "gOpNameToNdx_find (GetOpName xop) = Some k"
    and rest: "fileOps ops (map_assign k xop m) = Inr m'"
    by (auto simp: gOpNameToNdx_at_def split: option.splits sum.splits)
  from Cons.IH [OF rest] k show ?case
    by (auto simp: lastOpAt_Cons map_of_map_assign split: option.splits)
qed

lemma lastOpAt_Some:
  "lastOpAt ops ndx = Some x \<Longrightarrow> x \<in> set ops \<and> gOpNameToNdx_find (GetOpName x) = Some ndx"
proof -
  assume a: "lastOpAt ops ndx = Some x"
  let ?ys = "filter (\<lambda>xop. gOpNameToNdx_find (GetOpName xop) = Some ndx) ops"
  from a have ne: "?ys \<noteq> []" and x: "x = last ?ys"
    by (auto simp: lastOpAt_def Let_def split: if_splits)
  from ne have "last ?ys \<in> set ?ys" by (rule last_in_set)
  with x show ?thesis by simp
qed

lemma lastOpAt_None:
  "(lastOpAt ops ndx = None) = (Some ndx \<notin> set (positionsOf ops))"
proof -
  have "(Some ndx \<in> set (positionsOf ops)) =
        (\<exists>xop \<in> set ops. gOpNameToNdx_find (GetOpName xop) = Some ndx)"
    by (simp add: positionsOf_def image_iff eq_commute)
  then show ?thesis
    by (simp add: lastOpAt_def Let_def filter_empty_conv)
qed

lemma sorted_keys_distinct: "sorted_wrt (<) (map fst (m :: (OpNdx \<times> 'v) list)) \<Longrightarrow> distinct (map fst m)"
  by (simp add: strict_sorted_iff)

lemma filed_set_values:
  assumes "filed S m"
  shows "set (map snd m) = {x. \<exists>n. map_of m n = Some x}"
proof -
  from assms have d: "distinct (map fst m)"
    by (simp add: filed_def sorted_keys_distinct)
  show ?thesis
  proof (intro set_eqI iffI)
    fix x assume "x \<in> set (map snd m)"
    then obtain k where "(k, x) \<in> set m" by auto
    with d have "map_of m k = Some x" by simp
    then show "x \<in> {x. \<exists>n. map_of m n = Some x}" by blast
  next
    fix x assume "x \<in> {x. \<exists>n. map_of m n = Some x}"
    then obtain n where "map_of m n = Some x" by blast
    then have "(n, x) \<in> set m" by (rule map_of_SomeD)
    then show "x \<in> set (map snd m)" by force
  qed
qed

lemma fileOps_keys:
  "fileOps ops m = Inr m' \<Longrightarrow>
   Some ` fst ` set m' = Some ` fst ` set m \<union> set (positionsOf ops)"
proof (induction ops arbitrary: m)
  case Nil
  then show ?case by (simp add: positionsOf_def)
next
  case (Cons xop ops)
  from Cons.prems obtain k where k: "gOpNameToNdx_find (GetOpName xop) = Some k"
    and rest: "fileOps ops (map_assign k xop m) = Inr m'"
    by (auto simp: gOpNameToNdx_at_def split: option.splits sum.splits)
  from Cons.IH [OF rest] k show ?case
    by (simp add: map_assign_keys positionsOf_def)
qed

lemma fileOps_shrinks:
  assumes "fileOps ops [] = Inr m" and "\<not> distinct (positionsOf ops)"
  shows "length m < length ops"
proof -
  have inv: "filed (set ops) m"
    using fileOps_filed [OF filed_empty _ assms(1)] by simp
  then have d: "distinct (map fst m)"
    by (simp add: filed_def sorted_keys_distinct)
  have "length m = length (map fst m)" by simp
  also have "\<dots> = card (set (map fst m))"
    using d by (simp only: distinct_card)
  also have "\<dots> = card (Some ` fst ` set m)"
    by (simp add: card_image)
  also have "\<dots> = card (set (positionsOf ops))"
    using fileOps_keys [OF assms(1)] by simp
  also have "\<dots> < length (positionsOf ops)"
    using assms(2) card_length [of "positionsOf ops"] card_distinct [of "positionsOf ops"]
    by (cases "card (set (positionsOf ops)) = length (positionsOf ops)") auto
  finally show ?thesis by (simp add: positionsOf_def)
qed

lemma hasValidSuffix_iff:
  "hasValidSuffix xformOps = (\<forall>xop \<in> set xformOps. gOpNameToNdx_find (GetName xop) \<noteq> None)"
  by (induction xformOps) auto

section \<open>Properties of the store operations and of the operation functions\<close>

lemma fileOps_resolved:
  "fileOps ops m = Inr m' \<Longrightarrow> \<forall>xop \<in> set ops. gOpNameToNdx_find (GetOpName xop) \<noteq> None"
  by (induction ops arbitrary: m) (auto simp: gOpNameToNdx_at_def split: option.splits sum.splits)

lemma setXformOpOrder_committed:
  assumes "setXformOpOrder x = Inr (x', True)"
  shows "set (fst (GetOrderedXformOps x')) =
           {xop. \<exists>ndx. lastOpAt (fst (GetOrderedXformOps x)) ndx = Some xop}"
    and "primAttrs x' = primAttrs x"
    and "\<forall>xop \<in> set (fst (GetOrderedXformOps x)). gOpNameToNdx_find (GetOpName xop) \<noteq> None"
proof -
  obtain ops resets where ops: "GetOrderedXformOps x = (ops, resets)"
    by (cases "GetOrderedXformOps x")
  with assms obtain m where m: "fileOps ops [] = Inr m"
    and w: "SetXformOpOrder x (map snd m) resets = (x', True)"
    by (auto simp: setXformOpOrder_def split: sum.splits)
  have inv: "filed (set ops) m"
    using fileOps_filed [OF filed_empty _ m] by simp
  have look: "map_of m ndx = lastOpAt ops ndx" for ndx
    using fileOps_map_of [OF m, of ndx] by (simp split: option.splits)
  have "set (map snd m) \<subseteq> set (fst (GetOrderedXformOps x))"
    using filed_values [OF inv] ops by simp
  from GetOrderedXformOps_after_write [OF this w]
  have new: "fst (GetOrderedXformOps x') = map snd m" .
  show "set (fst (GetOrderedXformOps x')) =
           {xop. \<exists>ndx. lastOpAt (fst (GetOrderedXformOps x)) ndx = Some xop}"
    using new filed_set_values [OF inv] look ops by simp
  from w show "primAttrs x' = primAttrs x"
    by (auto simp: SetXformOpOrder_def split: if_splits)
  show "\<forall>xop \<in> set (fst (GetOrderedXformOps x)). gOpNameToNdx_find (GetOpName xop) \<noteq> None"
    using fileOps_resolved [OF m] ops by simp
qed

lemma setXformOpOrder_attrs:
  "setXformOpOrder x = Inr (x', ok) \<Longrightarrow> primAttrs x' = primAttrs x"
  by (auto simp: setXformOpOrder_def SetXformOpOrder_def split: sum.splits prod.splits if_splits)

lemma AddXformOp_None: "AddXformOp x ty prec sfx b = (x1, None) \<Longrightarrow> x1 = x"
  by (auto simp: AddXformOp_def Let_def split: if_splits)

lemma AddXformOp_Some:
  assumes "AddXformOp x ty prec sfx b = (x1, Some xop)"
  shows "xop = \<lparr>opAttrName = GetOpNameFor ty sfx, isInverseOp = b\<rparr>"
    and "GetAttribute x1 (GetOpNameFor ty sfx) \<noteq> None"
    and "xformOpOrder x1 = xformOpOrder x @ [xop]"
    and "GetOpName xop \<notin> set (addRejected x)"
    and "addRejected x1 = addRejected x"
    and "orderWriteRejected x1 = orderWriteRejected x"
  using assms
  by (auto simp: AddXformOp_def Let_def GetAttribute_def map_add_def split: if_splits)

lemma AddXformOp_rejected:
  "GetOpName \<lparr>opAttrName = GetOpNameFor ty sfx, isInverseOp = b\<rparr> \<in> set (addRejected x) \<Longrightarrow>
   AddXformOp x ty prec sfx b = (x, None)"
  by (simp add: AddXformOp_def Let_def)

lemma addOpAndReorder_valid:
  assumes "addOpAndReorder ty prec sfx t1 t2 x = (x', Inr xop)"
  shows "GetAttribute x' (opAttrName xop) \<noteq> None"
proof -
  obtain x1 r where a: "AddXformOp x ty prec sfx False = (x1, r)"
    by (cases "AddXformOp x ty prec sfx False")
  with assms obtain ok where r: "r = Some xop" and s: "setXformOpOrder x1 = Inr (x', ok)"
    by (auto simp: addOpAndReorder_def split: option.splits sum.splits if_splits)
  from AddXformOp_Some(1,2) [OF a [unfolded r]] setXformOpOrder_attrs [OF s]
  show ?thesis by (simp add: GetAttribute_def)
qed

lemma addPivotAndReorder_valid:
  assumes "addPivotAndReorder sfx x = (x', Inr xop)"
  shows "GetAttribute x' (opAttrName xop) \<noteq> None"
proof -
  obtain x1 p where a: "AddXformOp x TypeTranslate PrecisionFloat sfx False = (x1, p)"
    by (cases "AddXformOp x TypeTranslate PrecisionFloat sfx False")
  obtain x2 pInv where b: "AddXformOp x1 TypeTranslate PrecisionFloat sfx True = (x2, pInv)"
    by (cases "AddXformOp x1 TypeTranslate PrecisionFloat sfx True")
  from assms a b obtain q ok where p: "p = Some xop" and q: "pInv = Some q"
    and s: "setXformOpOrder x2 = Inr (x', ok)"
    by (auto simp: addPivotAndReorder_def split: option.splits sum.splits if_splits)
  from AddXformOp_Some(1) [OF a [unfolded p]] AddXformOp_Some(2) [OF b [unfolded q]]
    setXformOpOrder_attrs [OF s]
  show ?thesis by (simp add: GetAttribute_def)
qed

lemma inUndoBlock_Inr:
  assumes "inUndoBlock u prim body = (u', item', Inr xop)"
  shows "\<exists>prim'. body prim = (prim', Inr xop) \<and> item' = Some (UsdSceneItem prim') \<and> u' = prim # u"
  using assms
  by (auto simp: inUndoBlock_def UsdUndoBlock_def split: prod.splits sum.splits)


lemma callOpFunc_valid:
  assumes "callOpFunc f item u = (u', item', Inr xop)"
  shows "opIsValid item' (Some xop)"
proof (cases "asUsdSceneItem item")
  case None
  with assms show ?thesis by (cases f) auto
next
  case (Some prim)
  show ?thesis
  proof (cases f)
    case (RotateOpFunc attrName opSuffix)
    with assms Some show ?thesis
      by (auto simp: opIsValid_def opOfAttr_def getUsdPrimAttribute_def asUsdSceneItem_def
          split: if_splits dest!: inUndoBlock_Inr addOpAndReorder_valid)
  next
    case (ScaleOpFunc attrName opSuffix)
    with assms Some show ?thesis
      by (auto simp: opIsValid_def opOfAttr_def getUsdPrimAttribute_def asUsdSceneItem_def
          split: if_splits dest!: inUndoBlock_Inr addOpAndReorder_valid)
  next
    case (Vector3dOpFunc V attrName opSuffix)
    with assms Some show ?thesis
      by (auto simp: opIsValid_def opOfAttr_def getUsdPrimAttribute_def asUsdSceneItem_def
          split: if_splits dest!: inUndoBlock_Inr addOpAndReorder_valid)
  next
    case (PivotOpFunc pvtAttrName pvtOpSuffix)
    with assms Some show ?thesis
      by (auto simp: opIsValid_def opOfAttr_def asUsdSceneItem_def
          split: if_splits dest!: inUndoBlock_Inr addPivotAndReorder_valid)
  qed
qed








section \<open>Properties of the reader and of the edit check\<close>

lemma resolved_lookup:
  assumes "allNamesResolve prim"
  shows "hasOp prim ndx = Inr (authoredOpAt prim ndx \<noteq> None)"
    and "getOp prim ndx =
           (case authoredOpAt prim ndx of None \<Rightarrow> Inl OutOfRange | Some xop \<Rightarrow> Inr xop)"
    and "opAt prim ndx = Inr (authoredOpAt prim ndx)"
proof -
  obtain ops resets where ops: "GetOrderedXformOps prim = (ops, resets)"
    by (cases "GetOrderedXformOps prim")
  with assms obtain m where m: "fileOps ops [] = Inr m"
    using fileOps_succeeds [of ops "[]"] by (auto simp: allNamesResolve_def list_all_iff)
  have look: "map_of m n = lastOpAt ops n" for n
    using fileOps_map_of [OF m, of n] by (simp split: option.splits)
  have g: "getOrderedOps prim = Inr m"
    using ops m by (simp add: getOrderedOps_def)
  show h: "hasOp prim ndx = Inr (authoredOpAt prim ndx \<noteq> None)"
    using g look ops by (simp add: hasOp_def map_find_def authoredOpAt_def)
  show gO: "getOp prim ndx =
           (case authoredOpAt prim ndx of None \<Rightarrow> Inl OutOfRange | Some xop \<Rightarrow> Inr xop)"
    using g look ops by (simp add: getOp_def map_at_def authoredOpAt_def)
  show "opAt prim ndx = Inr (authoredOpAt prim ndx)"
    by (simp add: opAt_def h gO split: option.splits)
qed

lemma authoredOpAt_name:
  "authoredOpAt prim ndx = Some xop \<Longrightarrow> gOpNameToNdx_find (GetOpName xop) = Some ndx"
  by (simp add: authoredOpAt_def lastOpAt_Some)

lemma rotate_names:
  assumes "gOpNameToNdx_find name = Some NdxRotate" and "name \<noteq> ''xformOp:orient''"
  shows "\<exists>cvt. getCvtRotXYZFromAttrFn name = Inr (Some cvt)"
proof -
  from assms have "name \<in> {''xformOp:rotateX'', ''xformOp:rotateY'', ''xformOp:rotateZ'',
      ''xformOp:rotateXYZ'', ''xformOp:rotateXZY'', ''xformOp:rotateYXZ'', ''xformOp:rotateYZX'',
      ''xformOp:rotateZXY'', ''xformOp:rotateZYX''}"
    by (simp add: gOpNameToNdx_find_def gOpNameToNdx_entries_def split: if_splits)
  then show ?thesis
    by (auto simp: getCvtRotXYZFromAttrFn_def cvtFromAttr_entries_def)
qed

lemma getVector3d_default:
  "absentOrUnwritten (GetAttribute prim name) \<Longrightarrow> getVector3d V prim name = Vector3d 0 0 0"
  by (auto simp: absentOrUnwritten_def getVector3d_def split: option.splits)

lemma pivot_default:
  assumes "getOpSuffix ndx = Inr suffix"
    and "absentOrUnwritten (GetAttribute prim (GetOpNameFor TypeTranslate suffix))"
  shows "getPivotVector3d prim ndx = Inr (Vector3d 0 0 0)"
  using assms by (simp add: getPivotVector3d_def getVector3d_default)

lemma rotation_resolved:
  assumes "allNamesResolve prim"
  shows "rotation applyCvt prim =
    (case authoredOpAt prim NdxRotate of
       None \<Rightarrow> Inr (Vector3d 0 0 0)
     | Some r \<Rightarrow>
         if \<not> HasValue (opAttrValue prim r) then Inr (Vector3d 0 0 0)
         else (case getCvtRotXYZFromAttrFn (GetOpName r) of
                 Inl e \<Rightarrow> Inl e
               | Inr None \<Rightarrow> Inl NullFunctionCall
               | Inr (Some cvt) \<Rightarrow> Inr (applyCvt cvt (opAttrValue prim r))))"
  by (simp add: rotation_def resolved_lookup [OF assms] split: option.splits)

lemma scale_resolved:
  assumes "allNamesResolve prim"
  shows "scale prim =
    (case authoredOpAt prim NdxScale of
       None \<Rightarrow> Inr (Vector3d 1 1 1)
     | Some s \<Rightarrow>
         if \<not> HasValue (opAttrValue prim s) then Inr (Vector3d 1 1 1)
         else Inr (readVec PrecisionFloat (opAttrValue prim s)))"
  by (simp add: scale_def resolved_lookup [OF assms] split: option.splits)

lemma isAttributeEditAllowed_denied:
  "targetNotEditable prim attrName \<Longrightarrow>
   isAttributeEditAllowed prim attrName = (False, denialMessage prim attrName)"
  by (auto simp: targetNotEditable_def denialMessage_def targetExists_def
      isAttributeEditAllowed_def Let_def split: if_splits)

lemma resolved_positions:
  "\<forall>xop \<in> set ops. gOpNameToNdx_find (GetOpName xop) \<noteq> None \<Longrightarrow>
   filter (\<lambda>p. p \<noteq> None) (positionsOf ops) = positionsOf ops"
  by (induction ops) (auto simp: positionsOf_def)

lemma getOrderedOps_Inr:
  assumes "GetOrderedXformOps prim = (ops, resets)" and "getOrderedOps prim = Inr m"
  shows "fileOps ops [] = Inr m" and "\<forall>ndx. map_find m ndx = lastOpAt ops ndx"
proof -
  show m: "fileOps ops [] = Inr m"
    using assms by (simp add: getOrderedOps_def)
  show "\<forall>ndx. map_find m ndx = lastOpAt ops ndx"
  proof
    fix ndx
    show "map_find m ndx = lastOpAt ops ndx"
      using fileOps_map_of [OF m, of ndx] by (simp add: map_find_def split: option.splits)
  qed
qed

lemma setXformOpOrder_shrinks:
  assumes "setXformOpOrder x = Inr (x', True)"
    and "sharesPosition (fst (GetOrderedXformOps x))"
  shows "distinct (positionsOf (fst (GetOrderedXformOps x')))"
    and "length (fst (GetOrderedXformOps x')) < length (fst (GetOrderedXformOps x))"
proof -
  obtain ops resets where ops: "GetOrderedXformOps x = (ops, resets)"
    by (cases "GetOrderedXformOps x")
  with assms obtain m where m: "fileOps ops [] = Inr m"
    and w: "SetXformOpOrder x (map snd m) resets = (x', True)"
    by (auto simp: setXformOpOrder_def split: sum.splits)
  have inv: "filed (set ops) m"
    using fileOps_filed [OF filed_empty _ m] by simp
  have "set (map snd m) \<subseteq> set (fst (GetOrderedXformOps x))"
    using filed_values [OF inv] ops by simp
  from GetOrderedXformOps_after_write [OF this w]
  have new: "fst (GetOrderedXformOps x') = map snd m" .
  have "distinct (map fst m)"
    using inv by (simp add: filed_def sorted_keys_distinct)
  then have "distinct (map Some (map fst m))"
    by (subst distinct_map) (simp add: inj_on_def)
  then show "distinct (positionsOf (fst (GetOrderedXformOps x')))"
    by (simp only: new filed_positions [OF inv])
  have "\<not> distinct (positionsOf ops)"
    using assms(2) ops resolved_positions [OF fileOps_resolved [OF m]]
    by (simp add: sharesPosition_def)
  from fileOps_shrinks [OF m this] new ops
  show "length (fst (GetOrderedXformOps x')) < length (fst (GetOrderedXformOps x))"
    by simp
qed

lemma setXformOpOrder_resolved:
  assumes "allNamesResolve x"
  shows "\<exists>x'. setXformOpOrder x = Inr (x', \<not> orderWriteRejected x)"
proof -
  obtain ops resets where ops: "GetOrderedXformOps x = (ops, resets)"
    by (cases "GetOrderedXformOps x")
  with assms obtain m where m: "fileOps ops [] = Inr m"
    using fileOps_succeeds [of ops "[]"] by (auto simp: allNamesResolve_def list_all_iff)
  then show ?thesis
    using ops by (simp add: setXformOpOrder_def SetXformOpOrder_def)
qed

section \<open>Properties of the committed order and of the pivot pair\<close>

lemma keyed_lastOpAt:
  assumes "\<forall>(k, xop) \<in> set m. gOpNameToNdx_find (GetOpName xop) = Some k"
    and "distinct (map fst m)"
  shows "lastOpAt (map snd m) ndx = map_of m ndx"
  using assms
proof (induction m)
  case Nil
  show ?case by (simp add: lastOpAt_Nil)
next
  case (Cons e m)
  obtain k x where e: "e = (k, x)" by (cases e)
  from Cons.prems e have k: "gOpNameToNdx_find (GetOpName x) = Some k"
    and nk: "map_of m k = None" and IH: "lastOpAt (map snd m) ndx = map_of m ndx"
    using Cons.IH by (auto simp: map_of_eq_None_iff)
  show ?case
    using k nk IH by (auto simp: e lastOpAt_Cons split: option.splits)
qed

lemma filed_lastOpAt:
  assumes "filed S m"
  shows "lastOpAt (map snd m) ndx = map_of m ndx"
  using assms by (intro keyed_lastOpAt) (auto simp: filed_def sorted_keys_distinct)

lemma fileOps_content:
  assumes m: "fileOps ops [] = Inr m"
  shows "set (map snd m) \<subseteq> set ops"
    and "set (positionsOf (map snd m)) = set (positionsOf ops)"
    and "lastOpAt (map snd m) ndx = lastOpAt ops ndx"
    and "distinct (positionsOf ops) \<Longrightarrow> set (map snd m) = set ops \<and> length m = length ops"
proof -
  have inv: "filed (set ops) m"
    using fileOps_filed [OF filed_empty _ m] by simp
  show sub: "set (map snd m) \<subseteq> set ops"
    by (rule filed_values [OF inv])
  show "set (positionsOf (map snd m)) = set (positionsOf ops)"
    using fileOps_keys [OF m] filed_positions [OF inv] by (simp add: image_image)
  show "lastOpAt (map snd m) ndx = lastOpAt ops ndx"
    using filed_lastOpAt [OF inv, of ndx] fileOps_map_of [OF m, of ndx]
    by (simp split: option.splits)
  assume d: "distinct (positionsOf ops)"
  have dk: "distinct (map fst m)"
    using inv by (simp add: filed_def sorted_keys_distinct)
  have "length m = card (set (map fst m))"
    using dk distinct_card [of "map fst m"] by simp
  also have "\<dots> = card (Some ` fst ` set m)"
    by (simp add: card_image)
  also have "\<dots> = card (set (positionsOf ops))"
    using fileOps_keys [OF m] by simp
  also have "\<dots> = length ops"
    using d distinct_card [of "positionsOf ops"] by (simp add: positionsOf_def)
  finally have len: "length m = length ops" .
  have dops: "distinct ops"
    using d unfolding positionsOf_def by (simp only: distinct_map)
  have "distinct (map Some (map fst m))"
    using dk by (subst distinct_map) (simp add: inj_on_def)
  then have "distinct (positionsOf (map snd m))"
    by (simp only: filed_positions [OF inv])
  then have dnew: "distinct (map snd m)"
    unfolding positionsOf_def by (simp only: distinct_map)
  have "card (set (map snd m)) = card (set ops)"
    using distinct_card [OF dnew] distinct_card [OF dops] len by simp
  with sub have "set (map snd m) = set ops"
    by (intro card_subset_eq) auto
  with len show "set (map snd m) = set ops \<and> length m = length ops" by simp
qed








section \<open>The canonical order after a reordering\<close>

text \<open>
  Claim C1. For every prim whose authored operations all have a name that resolves in
  \<open>gOpNameToNdx\<close>, \<open>setXformOpOrder\<close> returns without throwing. It returns
  \<open>false\<close> and leaves the prim as it is when the store rejects the write of the
  order. Otherwise it returns \<open>true\<close> and commits an order whose traversal yields
  strictly increasing canonical positions, whatever operations were there at the start
  and in whatever order. The committed operations are operations of the old order; the
  positions met are those of the old order; at every position stands the operation that
  stood last at that position before; when no two operations shared a position, the
  committed order is a rearrangement of the old one. Nothing but the order is changed.
\<close>

theorem setXformOpOrder_canonical_order:
  assumes "\<forall>xop \<in> set (fst (GetOrderedXformOps xformable)).
             gOpNameToNdx_find (GetOpName xop) \<noteq> None"
  shows "\<exists>xformable'.
           setXformOpOrder xformable = Inr (xformable', \<not> orderWriteRejected xformable) \<and>
           (orderWriteRejected xformable \<longrightarrow> xformable' = xformable) \<and>
           (\<not> orderWriteRejected xformable \<longrightarrow>
              (\<exists>ns. positionsOf (fst (GetOrderedXformOps xformable')) = map Some ns \<and>
                    sorted_wrt (<) ns) \<and>
              set (fst (GetOrderedXformOps xformable')) \<subseteq> set (fst (GetOrderedXformOps xformable)) \<and>
              set (positionsOf (fst (GetOrderedXformOps xformable'))) =
                set (positionsOf (fst (GetOrderedXformOps xformable))) \<and>
              (\<forall>ndx. lastOpAt (fst (GetOrderedXformOps xformable')) ndx =
                     lastOpAt (fst (GetOrderedXformOps xformable)) ndx) \<and>
              (distinct (positionsOf (fst (GetOrderedXformOps xformable))) \<longrightarrow>
                 set (fst (GetOrderedXformOps xformable')) = set (fst (GetOrderedXformOps xformable)) \<and>
                 length (fst (GetOrderedXformOps xformable')) =
                   length (fst (GetOrderedXformOps xformable))) \<and>
              xformable' = xformable\<lparr>xformOpOrder := fst (GetOrderedXformOps xformable'),
                                     resetsXformStack := snd (GetOrderedXformOps xformable)\<rparr>)"
proof -
  obtain oldOrder resets where old: "GetOrderedXformOps xformable = (oldOrder, resets)"
    by (cases "GetOrderedXformOps xformable")
  with assms obtain m where m: "fileOps oldOrder [] = Inr m"
    using fileOps_succeeds [of oldOrder "[]"] by auto
  have inv: "filed (set oldOrder) m"
    using fileOps_filed [OF filed_empty _ m] by simp
  obtain xformable' ok where w: "SetXformOpOrder xformable (map snd m) resets = (xformable', ok)"
    by (cases "SetXformOpOrder xformable (map snd m) resets")
  have ok: "ok = (\<not> orderWriteRejected xformable)"
    using w by (auto simp: SetXformOpOrder_def split: if_splits)
  have res: "setXformOpOrder xformable = Inr (xformable', \<not> orderWriteRejected xformable)"
    using old m w ok by (simp add: setXformOpOrder_def)
  have rej: "orderWriteRejected xformable \<longrightarrow> xformable' = xformable"
    using w by (auto simp: SetXformOpOrder_def split: if_splits)
  have acc: "(\<exists>ns. positionsOf (fst (GetOrderedXformOps xformable')) = map Some ns \<and>
                    sorted_wrt (<) ns) \<and>
              set (fst (GetOrderedXformOps xformable')) \<subseteq> set (fst (GetOrderedXformOps xformable)) \<and>
              set (positionsOf (fst (GetOrderedXformOps xformable'))) =
                set (positionsOf (fst (GetOrderedXformOps xformable))) \<and>
              (\<forall>ndx. lastOpAt (fst (GetOrderedXformOps xformable')) ndx =
                     lastOpAt (fst (GetOrderedXformOps xformable)) ndx) \<and>
              (distinct (positionsOf (fst (GetOrderedXformOps xformable))) \<longrightarrow>
                 set (fst (GetOrderedXformOps xformable')) = set (fst (GetOrderedXformOps xformable)) \<and>
                 length (fst (GetOrderedXformOps xformable')) =
                   length (fst (GetOrderedXformOps xformable))) \<and>
              xformable' = xformable\<lparr>xformOpOrder := fst (GetOrderedXformOps xformable'),
                                     resetsXformStack := snd (GetOrderedXformOps xformable)\<rparr>"
    if "\<not> orderWriteRejected xformable"
  proof -
    from that w ok have w': "SetXformOpOrder xformable (map snd m) resets = (xformable', True)"
      by simp
    have "set (map snd m) \<subseteq> set (fst (GetOrderedXformOps xformable))"
      using filed_values [OF inv] old by simp
    from GetOrderedXformOps_after_write [OF this w']
    have new: "fst (GetOrderedXformOps xformable') = map snd m" .
    have s: "\<exists>ns. positionsOf (map snd m) = map Some ns \<and> sorted_wrt (<) ns"
      using filed_positions [OF inv] inv
      by (intro exI [of _ "map fst m"]) (simp add: filed_def)
    have x': "xformable' = xformable\<lparr>xformOpOrder := map snd m, resetsXformStack := resets\<rparr>"
      using w' by (auto simp: SetXformOpOrder_def split: if_splits)
    note c = fileOps_content [OF m]
    from s c(1) c(2) c(3) c(4) x' show ?thesis
      unfolding new using old by auto
  qed
  from res rej acc show ?thesis by blast
qed

theorem setXformOpOrder_canonical_order_witness:
  "positionsOf (fst (GetOrderedXformOps unsortedPrim)) =
     [Some NdxScale, Some NdxRotate, Some NdxTranslate] \<and>
   setXformOpOrder unsortedPrim = Inr (sortedPrim, True) \<and>
   fst (GetOrderedXformOps sortedPrim) =
     [\<lparr>opAttrName = ''xformOp:translate'', isInverseOp = False\<rparr>,
      \<lparr>opAttrName = ''xformOp:rotateXYZ'', isInverseOp = False\<rparr>,
      \<lparr>opAttrName = ''xformOp:scale'', isInverseOp = False\<rparr>] \<and>
   positionsOf (fst (GetOrderedXformOps sortedPrim)) =
     [Some NdxTranslate, Some NdxRotate, Some NdxScale] \<and>
   set (fst (GetOrderedXformOps sortedPrim)) = set (fst (GetOrderedXformOps unsortedPrim))"
proof -
  have pos: "positionsOf (fst (GetOrderedXformOps unsortedPrim)) =
      [Some NdxScale, Some NdxRotate, Some NdxTranslate]"
    by code_simp
  have h: "\<forall>xop \<in> set (fst (GetOrderedXformOps unsortedPrim)).
      gOpNameToNdx_find (GetOpName xop) \<noteq> None"
    by (simp add: unsortedPrim_def GetOrderedXformOps_def GetAttribute_def GetOpName_def
        gOpNameToNdx_find_def gOpNameToNdx_entries_def)
  have w: "\<not> orderWriteRejected unsortedPrim"
    by code_simp
  have d: "distinct (positionsOf (fst (GetOrderedXformOps unsortedPrim)))"
    by (simp add: pos)
  have run: "setXformOpOrder unsortedPrim = Inr (sortedPrim, True)"
    by code_simp
  have new: "fst (GetOrderedXformOps sortedPrim) =
     [\<lparr>opAttrName = ''xformOp:translate'', isInverseOp = False\<rparr>,
      \<lparr>opAttrName = ''xformOp:rotateXYZ'', isInverseOp = False\<rparr>,
      \<lparr>opAttrName = ''xformOp:scale'', isInverseOp = False\<rparr>]"
    by code_simp
  have newpos: "positionsOf (fst (GetOrderedXformOps sortedPrim)) =
     [Some NdxTranslate, Some NdxRotate, Some NdxScale]"
    by code_simp
  from setXformOpOrder_canonical_order [OF h] w d run
  have "set (fst (GetOrderedXformOps sortedPrim)) = set (fst (GetOrderedXformOps unsortedPrim))"
    by auto
  with pos run new newpos show ?thesis by simp
qed

section \<open>The pivot pair\<close>

text \<open>
  The lambda of \<open>pivotCmd\<close> itself does not undo anything: at the throw that follows
  a rejected creation of the inverse, the store holds the forward pivot alone. It is the
  undo block around the lambda's creating branch that restores the store.
\<close>

lemma addPivotAndReorder_state_at_throw:
  "addPivotAndReorder ''scalePivot'' rejectingPrim =
     (rejectingPrim
        \<lparr>primAttrs := primAttrs rejectingPrim @ [(''xformOp:translate:scalePivot'', VtEmpty)],
         xformOpOrder := xformOpOrder rejectingPrim @ [pivotOp ''scalePivot'']\<rparr>,
      Inl (RuntimeError ''Cannot add translation transform operation''))"
  by code_simp




section \<open>Matches and delegations of the selection gate\<close>

text \<open>
  Claim C3. For every transformable prim whose authored operation list is empty,
  \<open>createTransform3d\<close> returns a Maya transform stack interface bound to the prim,
  whatever the substack matcher and the next handler are; it does not delegate.
\<close>

theorem createTransform3d_empty_matches:
  assumes "primXformable prim" and "fst (GetOrderedXformOps prim) = []"
  shows "createTransform3d matchingSubstack (Some (UsdSceneItem prim)) nextTransform3d =
           Inr (MayaXformStack prim)"
proof -
  obtain resets where "GetOrderedXformOps prim = ([], resets)"
    using assms(2) by (cases "GetOrderedXformOps prim") simp
  with assms(1) show ?thesis
    by (simp add: createTransform3d_def asUsdSceneItem_def create_def)
qed

theorem createTransform3d_empty_matches_witness:
  "createTransform3d (\<lambda>ops. ([] :: unit list)) (Some (UsdSceneItem emptyPrim)) () =
     Inr (MayaXformStack emptyPrim)"
proof -
  have x: "primXformable emptyPrim" by (simp add: emptyPrim_def)
  have e: "fst (GetOrderedXformOps emptyPrim) = []"
    by (simp add: emptyPrim_def GetOrderedXformOps_def)
  show ?thesis by (rule createTransform3d_empty_matches [OF x e])
qed

text \<open>
  Claim C4. For every transformable prim whose authored operation list contains an
  operation whose name (\<open>GetName\<close>, as \<open>hasValidSuffix\<close> looks it up) does not
  resolve in \<open>gOpNameToNdx\<close>, \<open>createTransform3d\<close> returns what the next handler
  returns, whatever the remaining operations and the substack matcher are.
\<close>

theorem createTransform3d_unresolved_delegates:
  assumes "primXformable prim"
    and "xop \<in> set (fst (GetOrderedXformOps prim))"
    and "gOpNameToNdx_find (GetName xop) = None"
  shows "createTransform3d matchingSubstack (Some (UsdSceneItem prim)) nextTransform3d =
           Inr (FromNextHandler nextTransform3d)"
proof -
  obtain xformOps resets where ops: "GetOrderedXformOps prim = (xformOps, resets)"
    by (cases "GetOrderedXformOps prim")
  with assms(2) have ne: "xformOps \<noteq> []" by auto
  from assms(2,3) ops have "\<not> hasValidSuffix xformOps"
    by (auto simp: hasValidSuffix_iff)
  with assms(1) ops ne show ?thesis
    by (simp add: createTransform3d_def asUsdSceneItem_def)
qed

theorem createTransform3d_unresolved_delegates_witness:
  "createTransform3d (\<lambda>ops. [()]) (Some (UsdSceneItem matrixPrim)) ''next'' =
     Inr (FromNextHandler ''next'')"
proof -
  have x: "primXformable matrixPrim" by (simp add: matrixPrim_def)
  have m: "\<lparr>opAttrName = ''xformOp:transform'', isInverseOp = False\<rparr>
      \<in> set (fst (GetOrderedXformOps matrixPrim))"
    by (simp add: matrixPrim_def GetOrderedXformOps_def GetAttribute_def)
  have u: "gOpNameToNdx_find (GetName \<lparr>opAttrName = ''xformOp:transform'', isInverseOp = False\<rparr>) = None"
    by (simp add: GetName_def gOpNameToNdx_find_def gOpNameToNdx_entries_def)
  show ?thesis by (rule createTransform3d_unresolved_delegates [OF x m u])
qed

section \<open>The read accessors\<close>

text \<open>
  Claim C5 says that every accessor returns its default whenever the operation is absent.
  On the prim \<open>strayPrim\<close> no authored operation stands at the rotate position, and
  \<open>rotation\<close> throws, because the list holds a name that the table lacks; no authored
  operation stands at the translate position either, and \<open>translation\<close> returns the value
  of the attribute that the prim still has.
\<close>

theorem accessor_defaults_counterexample:
  "authoredOpAt strayPrim NdxRotate = None \<and>
   rotation (\<lambda>cvt v. Indeterminate) strayPrim = Inl OutOfRange \<and>
   authoredOpAt strayPrim NdxTranslate = None \<and>
   translation strayPrim = Vector3d 1 2 3"
  by code_simp

text \<open>
  Claim C5, amended. \<open>translation\<close> and the four pivot accessors return the zero vector
  when the prim has no attribute of the operation's name, or that attribute has no value.
  When every authored name resolves, \<open>rotation\<close> returns the zero vector and \<open>scale\<close>
  the unit scale if no authored operation stands at their position or the one that does
  has no value; and when the rotate operation has a value, \<open>rotation\<close> calls the
  conversion function that the table holds for that operation's own name, which is a null
  function for \<open>xformOp:orient\<close> only.
\<close>

theorem accessor_defaults:
  fixes prim :: "'c::{zero,one} UsdPrim"
  shows
  "(absentOrUnwritten (GetAttribute prim ''xformOp:translate'') \<longrightarrow>
      translation prim = Vector3d 0 0 0) \<and>
   (absentOrUnwritten (GetAttribute prim ''xformOp:translate:rotatePivot'') \<longrightarrow>
      rotatePivot prim = Inr (Vector3d 0 0 0)) \<and>
   (absentOrUnwritten (GetAttribute prim ''xformOp:translate:scalePivot'') \<longrightarrow>
      scalePivot prim = Inr (Vector3d 0 0 0)) \<and>
   (absentOrUnwritten (GetAttribute prim ''xformOp:translate:rotatePivotTranslate'') \<longrightarrow>
      rotatePivotTranslation prim = Inr (Vector3d 0 0 0)) \<and>
   (absentOrUnwritten (GetAttribute prim ''xformOp:translate:scalePivotTranslate'') \<longrightarrow>
      scalePivotTranslation prim = Inr (Vector3d 0 0 0)) \<and>
   (allNamesResolve prim \<longrightarrow>
      (absentOrUnwritten (opValueAt prim NdxRotate) \<longrightarrow>
         rotation applyCvt prim = Inr (Vector3d 0 0 0)) \<and>
      (absentOrUnwritten (opValueAt prim NdxScale) \<longrightarrow>
         scale prim = Inr (Vector3d 1 1 1)) \<and>
      (\<forall>r. authoredOpAt prim NdxRotate = Some r \<and> HasValue (opAttrValue prim r) \<longrightarrow>
         (case getCvtRotXYZFromAttrFn (GetOpName r) of
            Inr (Some cvt) \<Rightarrow> rotation applyCvt prim = Inr (applyCvt cvt (opAttrValue prim r))
          | _ \<Rightarrow> GetOpName r = ''xformOp:orient'' \<and> rotation applyCvt prim = Inl NullFunctionCall)))"
proof -
  have t: "absentOrUnwritten (GetAttribute prim ''xformOp:translate'') \<longrightarrow>
      translation prim = Vector3d 0 0 0"
    by (simp add: translation_def getTRSOpSuffix_def GetOpNameFor_def getVector3d_default)
  have rp: "absentOrUnwritten (GetAttribute prim ''xformOp:translate:rotatePivot'') \<longrightarrow>
      rotatePivot prim = Inr (Vector3d 0 0 0)"
    using pivot_default [of NdxRotatePivot "''rotatePivot''" prim]
    by (simp add: rotatePivot_def getOpSuffix_def opSuffix_entries_def GetOpNameFor_def)
  have sp: "absentOrUnwritten (GetAttribute prim ''xformOp:translate:scalePivot'') \<longrightarrow>
      scalePivot prim = Inr (Vector3d 0 0 0)"
    using pivot_default [of NdxScalePivot "''scalePivot''" prim]
    by (simp add: scalePivot_def getOpSuffix_def opSuffix_entries_def GetOpNameFor_def)
  have rpt: "absentOrUnwritten (GetAttribute prim ''xformOp:translate:rotatePivotTranslate'') \<longrightarrow>
      rotatePivotTranslation prim = Inr (Vector3d 0 0 0)"
    using pivot_default [of NdxRotatePivotTranslate "''rotatePivotTranslate''" prim]
    by (simp add: rotatePivotTranslation_def getOpSuffix_def opSuffix_entries_def GetOpNameFor_def)
  have spt: "absentOrUnwritten (GetAttribute prim ''xformOp:translate:scalePivotTranslate'') \<longrightarrow>
      scalePivotTranslation prim = Inr (Vector3d 0 0 0)"
    using pivot_default [of NdxScalePivotTranslate "''scalePivotTranslate''" prim]
    by (simp add: scalePivotTranslation_def getOpSuffix_def opSuffix_entries_def GetOpNameFor_def)
  have list: "(absentOrUnwritten (opValueAt prim NdxRotate) \<longrightarrow>
         rotation applyCvt prim = Inr (Vector3d 0 0 0)) \<and>
      (absentOrUnwritten (opValueAt prim NdxScale) \<longrightarrow>
         scale prim = Inr (Vector3d 1 1 1)) \<and>
      (\<forall>r. authoredOpAt prim NdxRotate = Some r \<and> HasValue (opAttrValue prim r) \<longrightarrow>
         (case getCvtRotXYZFromAttrFn (GetOpName r) of
            Inr (Some cvt) \<Rightarrow> rotation applyCvt prim = Inr (applyCvt cvt (opAttrValue prim r))
          | _ \<Rightarrow> GetOpName r = ''xformOp:orient'' \<and> rotation applyCvt prim = Inl NullFunctionCall))"
    if res: "allNamesResolve prim"
  proof (intro conjI impI allI)
    assume "absentOrUnwritten (opValueAt prim NdxRotate)"
    then show "rotation applyCvt prim = Inr (Vector3d 0 0 0)"
      by (auto simp: rotation_resolved [OF res] absentOrUnwritten_def opValueAt_def
          split: option.splits)
  next
    assume "absentOrUnwritten (opValueAt prim NdxScale)"
    then show "scale prim = Inr (Vector3d 1 1 1)"
      by (auto simp: scale_resolved [OF res] absentOrUnwritten_def opValueAt_def
          split: option.splits)
  next
    fix r
    assume a: "authoredOpAt prim NdxRotate = Some r \<and> HasValue (opAttrValue prim r)"
    then have n: "gOpNameToNdx_find (GetOpName r) = Some NdxRotate"
      by (auto dest: authoredOpAt_name)
    show "case getCvtRotXYZFromAttrFn (GetOpName r) of
            Inr (Some cvt) \<Rightarrow> rotation applyCvt prim = Inr (applyCvt cvt (opAttrValue prim r))
          | _ \<Rightarrow> GetOpName r = ''xformOp:orient'' \<and> rotation applyCvt prim = Inl NullFunctionCall"
    proof (cases "GetOpName r = ''xformOp:orient''")
      case True
      then have "getCvtRotXYZFromAttrFn (GetOpName r) = Inr None"
        by (simp add: getCvtRotXYZFromAttrFn_def cvtFromAttr_entries_def)
      with a True show ?thesis
        by (simp add: rotation_resolved [OF res])
    next
      case False
      from rotate_names [OF n False] obtain cvt
        where "getCvtRotXYZFromAttrFn (GetOpName r) = Inr (Some cvt)" by blast
      with a show ?thesis
        by (simp add: rotation_resolved [OF res])
    qed
  qed
  from t rp sp rpt spt list show ?thesis by blast
qed

theorem accessor_defaults_witness:
  "translation emptyPrim = Vector3d 0 0 0 \<and>
   rotatePivot emptyPrim = Inr (Vector3d 0 0 0) \<and>
   scalePivot emptyPrim = Inr (Vector3d 0 0 0) \<and>
   rotatePivotTranslation emptyPrim = Inr (Vector3d 0 0 0) \<and>
   scalePivotTranslation emptyPrim = Inr (Vector3d 0 0 0) \<and>
   scale lockedPrim = Inr (Vector3d 1 1 1) \<and>
   (\<forall>applyCvt. rotation applyCvt emptyPrim = Inr (Vector3d 0 0 0)) \<and>
   (\<forall>applyCvt. rotation applyCvt lockedPrim = Inr (applyCvt fromZYX (VtVec3f 30 20 10)))"
proof -
  have e: "absentOrUnwritten (GetAttribute emptyPrim ''xformOp:translate'')"
    "absentOrUnwritten (GetAttribute emptyPrim ''xformOp:translate:rotatePivot'')"
    "absentOrUnwritten (GetAttribute emptyPrim ''xformOp:translate:scalePivot'')"
    "absentOrUnwritten (GetAttribute emptyPrim ''xformOp:translate:rotatePivotTranslate'')"
    "absentOrUnwritten (GetAttribute emptyPrim ''xformOp:translate:scalePivotTranslate'')"
    "allNamesResolve emptyPrim"
    "absentOrUnwritten (opValueAt emptyPrim NdxRotate)"
    by code_simp+
  have l: "allNamesResolve lockedPrim" "absentOrUnwritten (opValueAt lockedPrim NdxScale)"
    "authoredOpAt lockedPrim NdxRotate = Some \<lparr>opAttrName = ''xformOp:rotateZYX'', isInverseOp = False\<rparr>"
    "opAttrValue lockedPrim \<lparr>opAttrName = ''xformOp:rotateZYX'', isInverseOp = False\<rparr> = VtVec3f 30 20 10"
    "getCvtRotXYZFromAttrFn (GetOpName \<lparr>opAttrName = ''xformOp:rotateZYX'', isInverseOp = False\<rparr>) = Inr (Some fromZYX)"
    "HasValue (VtVec3f 30 20 (10::int))"
    by code_simp+
  have "rotation applyCvt emptyPrim = Inr (Vector3d 0 0 0)" for applyCvt
    using accessor_defaults [of emptyPrim applyCvt] e by blast
  moreover have "rotation applyCvt lockedPrim = Inr (applyCvt fromZYX (VtVec3f 30 20 10))"
    for applyCvt
    using accessor_defaults [of lockedPrim applyCvt] l by (auto split: sum.splits option.splits)
  moreover have "scale lockedPrim = Inr (Vector3d 1 1 1)"
    using accessor_defaults [of lockedPrim undefined] l by blast
  ultimately show ?thesis
    using accessor_defaults [of emptyPrim undefined] e by blast
qed

section \<open>The edit check of the command factories\<close>

text \<open>
  Claim C6 says that a factory whose edit is not allowed returns a null command without
  throwing. On the prim \<open>matrixPrim\<close> the rotate target does not exist and the order
  attribute is not editable, and \<open>rotateCmd\<close> throws: it looks the rotate operation up
  before the check, and the list holds a name that the table lacks.
\<close>

theorem edit_not_allowed_counterexample:
  "targetNotEditable matrixPrim (targetOf matrixPrim NdxRotate) \<and>
   rotateCmd narrowToEven matrixPrim 10 20 30 = Inl OutOfRange"
  by code_simp

text \<open>
  Claim C6, amended. When the edit of the target attribute is not allowed,
  \<open>setVector3dCmd\<close> and \<open>pivotCmd\<close> show the message and return a null command,
  leaving the prim as it is; so do \<open>rotateCmd\<close> and \<open>scaleCmd\<close> when every authored
  name resolves.
\<close>

theorem edit_not_allowed_null_command:
  "(targetNotEditable prim attrName \<longrightarrow>
      setVector3dCmd prim V v attrName opSuffix = (prim, [denialMessage prim attrName], None)) \<and>
   (targetNotEditable prim (GetOpNameFor TypeTranslate pvtOpSuffix) \<longrightarrow>
      pivotCmd narrow prim pvtOpSuffix x y z =
        (prim, [denialMessage prim (GetOpNameFor TypeTranslate pvtOpSuffix)], None)) \<and>
   (allNamesResolve prim \<and> targetNotEditable prim (targetOf prim NdxRotate) \<longrightarrow>
      rotateCmd narrow prim x y z = Inr (prim, [denialMessage prim (targetOf prim NdxRotate)], None)) \<and>
   (allNamesResolve prim \<and> targetNotEditable prim (targetOf prim NdxScale) \<longrightarrow>
      scaleCmd narrow prim x y z = Inr (prim, [denialMessage prim (targetOf prim NdxScale)], None))"
proof (intro conjI impI)
  assume "targetNotEditable prim attrName"
  then show "setVector3dCmd prim V v attrName opSuffix =
      (prim, [denialMessage prim attrName], None)"
    by (simp add: setVector3dCmd_def isAttributeEditAllowed_denied)
next
  assume "targetNotEditable prim (GetOpNameFor TypeTranslate pvtOpSuffix)"
  then show "pivotCmd narrow prim pvtOpSuffix x y z =
      (prim, [denialMessage prim (GetOpNameFor TypeTranslate pvtOpSuffix)], None)"
    by (simp add: pivotCmd_def isAttributeEditAllowed_denied)
next
  assume a: "allNamesResolve prim \<and> targetNotEditable prim (targetOf prim NdxRotate)"
  then have "isAttributeEditAllowed prim (targetOf prim NdxRotate) =
      (False, denialMessage prim (targetOf prim NdxRotate))"
    by (simp add: isAttributeEditAllowed_denied)
  with a show "rotateCmd narrow prim x y z =
      Inr (prim, [denialMessage prim (targetOf prim NdxRotate)], None)"
    by (simp add: rotateCmd_def resolved_lookup(3) targetOf_def)
next
  assume a: "allNamesResolve prim \<and> targetNotEditable prim (targetOf prim NdxScale)"
  then have "isAttributeEditAllowed prim (targetOf prim NdxScale) =
      (False, denialMessage prim (targetOf prim NdxScale))"
    by (simp add: isAttributeEditAllowed_denied)
  with a show "scaleCmd narrow prim x y z =
      Inr (prim, [denialMessage prim (targetOf prim NdxScale)], None)"
    by (simp add: scaleCmd_def resolved_lookup(3) targetOf_def)
qed

theorem edit_not_allowed_null_command_witness:
  "setVector3dCmd lockedPrim PrecisionFloat (VtVec3f 1 1 1) ''xformOp:rotateZYX'' [] =
     (lockedPrim, [''rotate is locked''], None) \<and>
   pivotCmd narrowToEven lockedPrim ''rotatePivot'' 1 2 3 = (lockedPrim, [''order is locked''], None) \<and>
   rotateCmd narrowToEven lockedPrim 1 2 3 = Inr (lockedPrim, [''rotate is locked''], None) \<and>
   scaleCmd narrowToEven lockedPrim 1 2 3 = Inr (lockedPrim, [''order is locked''], None)"
proof -
  have h: "targetNotEditable lockedPrim ''xformOp:rotateZYX''"
    "targetNotEditable lockedPrim (GetOpNameFor TypeTranslate ''rotatePivot'')"
    "allNamesResolve lockedPrim"
    "targetNotEditable lockedPrim (targetOf lockedPrim NdxRotate)"
    "targetNotEditable lockedPrim (targetOf lockedPrim NdxScale)"
    by code_simp+
  have m: "denialMessage lockedPrim ''xformOp:rotateZYX'' = ''rotate is locked''"
    "denialMessage lockedPrim (GetOpNameFor TypeTranslate ''rotatePivot'') = ''order is locked''"
    "denialMessage lockedPrim (targetOf lockedPrim NdxRotate) = ''rotate is locked''"
    "denialMessage lockedPrim (targetOf lockedPrim NdxScale) = ''order is locked''"
    by code_simp+
  from edit_not_allowed_null_command
    [where prim = lockedPrim and attrName = "''xformOp:rotateZYX''" and V = PrecisionFloat
       and v = "VtVec3f 1 1 1" and opSuffix = "[]" and pvtOpSuffix = "''rotatePivot''"
       and narrow = narrowToEven and x = 1 and y = 2 and z = 3]
    h m
  show ?thesis by simp
qed

section \<open>Creating the operation of a command\<close>

text \<open>
  Claim C7. \<open>createOpIfNeeded\<close> is idempotent. While the cached handle is valid, an
  invocation returns at once: the command, the undo item and the store are unchanged.
  And after any invocation that returned normally the cached handle is valid, so that
  invoking it again changes nothing and creates nothing.
\<close>

theorem createOpIfNeeded_idempotent:
  "(opIsValid item (cmdOp cmd) \<longrightarrow>
      createOpIfNeeded cmd undoableItem item = (cmd, undoableItem, item, None)) \<and>
   (createOpIfNeeded cmd undoableItem item = (cmd', undoableItem', item', None) \<longrightarrow>
      opIsValid item' (cmdOp cmd') \<and>
      createOpIfNeeded cmd' undoableItem' item' = (cmd', undoableItem', item', None))"
proof (intro conjI impI)
  assume "opIsValid item (cmdOp cmd)"
  then show "createOpIfNeeded cmd undoableItem item = (cmd, undoableItem, item, None)"
    by (simp add: createOpIfNeeded_def)
next
  assume first: "createOpIfNeeded cmd undoableItem item = (cmd', undoableItem', item', None)"
  show valid: "opIsValid item' (cmdOp cmd')"
  proof (cases "opIsValid item (cmdOp cmd)")
    case True
    with first show ?thesis by (simp add: createOpIfNeeded_def)
  next
    case False
    with first obtain xop where
      call: "callOpFunc (cmdOpFunc cmd) item undoableItem = (undoableItem', item', Inr xop)"
      and cmd': "cmd' = cmd\<lparr>cmdOp := Some xop\<rparr>"
      by (auto simp: createOpIfNeeded_def split: prod.splits sum.splits)
    from callOpFunc_valid [OF call] cmd' show ?thesis by simp
  qed
  then show "createOpIfNeeded cmd' undoableItem' item' = (cmd', undoableItem', item', None)"
    by (simp add: createOpIfNeeded_def)
qed

theorem createOpIfNeeded_idempotent_witness:
  "createOpIfNeeded rotatePivotCommand [] (Some (UsdSceneItem emptyPrim)) =
     (rotatePivotCommand\<lparr>cmdOp := Some (pivotOp ''rotatePivot'')\<rparr>, [emptyPrim],
      Some (UsdSceneItem pivotedPrim), None) \<and>
   createOpIfNeeded (rotatePivotCommand\<lparr>cmdOp := Some (pivotOp ''rotatePivot'')\<rparr>) [emptyPrim]
     (Some (UsdSceneItem pivotedPrim)) =
     (rotatePivotCommand\<lparr>cmdOp := Some (pivotOp ''rotatePivot'')\<rparr>, [emptyPrim],
      Some (UsdSceneItem pivotedPrim), None)"
proof -
  have first: "createOpIfNeeded rotatePivotCommand [] (Some (UsdSceneItem emptyPrim)) =
     (rotatePivotCommand\<lparr>cmdOp := Some (pivotOp ''rotatePivot'')\<rparr>, [emptyPrim],
      Some (UsdSceneItem pivotedPrim), None)"
    by code_simp
  from createOpIfNeeded_idempotent
    [of "Some (UsdSceneItem emptyPrim)" rotatePivotCommand "[]"
        "rotatePivotCommand\<lparr>cmdOp := Some (pivotOp ''rotatePivot'')\<rparr>" "[emptyPrim]"
        "Some (UsdSceneItem pivotedPrim)"] first
  show ?thesis by simp
qed

section \<open>The rotation conversion tables\<close>

text \<open>
  Claim C8 says that looking up the conversion for \<open>xformOp:orient\<close> fails. It does
  not: both tables hold an entry for that name, so neither \<open>.at()\<close> throws.
\<close>

theorem orient_lookup_does_not_fail:
  "\<not> isl (getCvtRotXYZFromAttrFn ''xformOp:orient'') \<and>
   \<not> isl (getCvtRotXYZToAttrFn ''xformOp:orient'')"
  by (simp add: getCvtRotXYZFromAttrFn_def getCvtRotXYZToAttrFn_def cvtFromAttr_entries_def
      cvtToAttr_entries_def)

text \<open>
  Claim C8, amended. Both lookups return the null function stored for
  \<open>xformOp:orient\<close>. Nothing fails until that function is called: on a prim whose
  rotate operation is \<open>xformOp:orient\<close>, \<open>rotation\<close> fails at the call when the
  operation has a value, and \<open>rotateCmd\<close>, when the edit is allowed, returns a command
  that holds the null function.
\<close>

theorem orient_lookup_returns_null:
  "getCvtRotXYZFromAttrFn ''xformOp:orient'' = Inr None \<and>
   getCvtRotXYZToAttrFn ''xformOp:orient'' = Inr None \<and>
   (\<forall>r. allNamesResolve prim \<and> authoredOpAt prim NdxRotate = Some r \<and>
         GetOpName r = ''xformOp:orient'' \<longrightarrow>
      (HasValue (opAttrValue prim r) \<longrightarrow> rotation applyCvt prim = Inl NullFunctionCall) \<and>
      (fst (isAttributeEditAllowed prim ''xformOp:orient'') \<longrightarrow>
         rotateCmd narrow prim x y z =
           Inr (prim, [],
                Some \<lparr>cmdClass = UsdRotateOpUndoableCmd None,
                      newOpValue = GfVec3f narrow x y z,
                      cmdOp = None,
                      cmdOpFunc = RotateOpFunc ''xformOp:orient'' getTRSOpSuffix\<rparr>)))"
proof -
  have f: "getCvtRotXYZFromAttrFn ''xformOp:orient'' = Inr None"
    by (simp add: getCvtRotXYZFromAttrFn_def cvtFromAttr_entries_def)
  have t: "getCvtRotXYZToAttrFn ''xformOp:orient'' = Inr None"
    by (simp add: getCvtRotXYZToAttrFn_def cvtToAttr_entries_def)
  have "(HasValue (opAttrValue prim r) \<longrightarrow> rotation applyCvt prim = Inl NullFunctionCall) \<and>
      (fst (isAttributeEditAllowed prim ''xformOp:orient'') \<longrightarrow>
         rotateCmd narrow prim x y z =
           Inr (prim, [],
                Some \<lparr>cmdClass = UsdRotateOpUndoableCmd None,
                      newOpValue = GfVec3f narrow x y z,
                      cmdOp = None,
                      cmdOpFunc = RotateOpFunc ''xformOp:orient'' getTRSOpSuffix\<rparr>))"
    if a: "allNamesResolve prim \<and> authoredOpAt prim NdxRotate = Some r \<and>
         GetOpName r = ''xformOp:orient''" for r
  proof (intro conjI impI)
    assume "HasValue (opAttrValue prim r)"
    with a f show "rotation applyCvt prim = Inl NullFunctionCall"
      by (simp add: rotation_resolved)
  next
    assume "fst (isAttributeEditAllowed prim ''xformOp:orient'')"
    with a t show "rotateCmd narrow prim x y z =
           Inr (prim, [],
                Some \<lparr>cmdClass = UsdRotateOpUndoableCmd None,
                      newOpValue = GfVec3f narrow x y z,
                      cmdOp = None,
                      cmdOpFunc = RotateOpFunc ''xformOp:orient'' getTRSOpSuffix\<rparr>)"
      by (auto simp: rotateCmd_def resolved_lookup(3) Let_def split: prod.splits)
  qed
  with f t show ?thesis by blast
qed

theorem orient_lookup_returns_null_witness:
  "(\<forall>applyCvt. rotation applyCvt orientPrim = Inl NullFunctionCall) \<and>
   rotateCmd narrowToEven orientPrim 11 20 31 =
     Inr (orientPrim, [],
          Some \<lparr>cmdClass = UsdRotateOpUndoableCmd None,
                newOpValue = VtVec3f 10 20 30,
                cmdOp = None,
                cmdOpFunc = RotateOpFunc ''xformOp:orient'' []\<rparr>)"
proof -
  let ?r = "\<lparr>opAttrName = ''xformOp:orient'', isInverseOp = False\<rparr>"
  have h: "allNamesResolve orientPrim" "authoredOpAt orientPrim NdxRotate = Some ?r"
    "GetOpName ?r = ''xformOp:orient''" "HasValue (opAttrValue orientPrim ?r)"
    "fst (isAttributeEditAllowed orientPrim ''xformOp:orient'')"
    by code_simp+
  have "rotation applyCvt orientPrim = Inl NullFunctionCall" for applyCvt
    using orient_lookup_returns_null [where prim = orientPrim and applyCvt = applyCvt] h by blast
  moreover have "rotateCmd narrowToEven orientPrim 11 20 31 =
     Inr (orientPrim, [],
          Some \<lparr>cmdClass = UsdRotateOpUndoableCmd None,
                newOpValue = VtVec3f 10 20 30,
                cmdOp = None,
                cmdOpFunc = RotateOpFunc ''xformOp:orient'' []\<rparr>)"
    using orient_lookup_returns_null
      [where prim = orientPrim and narrow = narrowToEven and x = 11 and y = 20 and z = 31] h
    by (simp add: getTRSOpSuffix_def GfVec3f_def narrowToEven_def)
  ultimately show ?thesis by blast
qed

section \<open>The suffix table\<close>

text \<open>
  Claim C9 says that \<open>getOpSuffix\<close> is total over the canonical positions. It is not:
  the static table has six entries, and \<open>.at()\<close> throws for the translate position.
\<close>

theorem getOpSuffix_translate_throws: "getOpSuffix NdxTranslate = Inl OutOfRange"
  by (simp add: getOpSuffix_def opSuffix_entries_def)

text \<open>
  Claim C9, amended. \<open>getOpSuffix\<close> returns the suffix for the six positions rotate
  pivot translate, rotate pivot, rotate axis, scale pivot translate, scale pivot and
  shear, and throws \<open>std::out_of_range\<close> for each of the other seven.
\<close>

theorem getOpSuffix_partial:
  "getOpSuffix ndx =
    (if ndx = NdxRotatePivotTranslate then Inr ''rotatePivotTranslate''
     else if ndx = NdxRotatePivot then Inr ''rotatePivot''
     else if ndx = NdxRotateAxis then Inr ''rotateAxis''
     else if ndx = NdxScalePivotTranslate then Inr ''scalePivotTranslate''
     else if ndx = NdxScalePivot then Inr ''scalePivot''
     else if ndx = NdxShear then Inr ''shear''
     else Inl OutOfRange)"
  by (cases ndx) (simp_all add: getOpSuffix_def opSuffix_entries_def)

theorem getOpSuffix_partial_witness:
  "getOpSuffix NdxShear = Inr ''shear'' \<and> getOpSuffix NdxScale = Inl OutOfRange"
  using getOpSuffix_partial [of NdxShear] getOpSuffix_partial [of NdxScale] by simp

section \<open>Operations sharing a position\<close>

text \<open>
  Claim C10. Let two or more authored operations resolve to the same canonical position.
  Whatever \<open>getOrderedOps\<close>, \<open>hasOp\<close> and \<open>getOp\<close> return, they see at each
  position only the operation that stands last in the authored order; whenever
  \<open>setXformOpOrder\<close> commits, the committed order holds exactly those last operations,
  one per position, and is shorter than the list before. When every authored name
  resolves, none of them throws, and \<open>setXformOpOrder\<close> commits if the store accepts
  the write.
\<close>

theorem duplicate_positions_last_wins:
  assumes ops: "GetOrderedXformOps prim = (ops, resets)"
    and dup: "sharesPosition ops"
  shows "(\<forall>orderedOps. getOrderedOps prim = Inr orderedOps \<longrightarrow>
            (\<forall>ndx. map_find orderedOps ndx = lastOpAt ops ndx)) \<and>
         (\<forall>ndx has. hasOp prim ndx = Inr has \<longrightarrow> has = (lastOpAt ops ndx \<noteq> None)) \<and>
         (\<forall>ndx xop. getOp prim ndx = Inr xop \<longrightarrow> lastOpAt ops ndx = Some xop) \<and>
         (\<forall>prim'. setXformOpOrder prim = Inr (prim', True) \<longrightarrow>
            set (fst (GetOrderedXformOps prim')) = {xop. \<exists>ndx. lastOpAt ops ndx = Some xop} \<and>
            distinct (positionsOf (fst (GetOrderedXformOps prim'))) \<and>
            length (fst (GetOrderedXformOps prim')) < length ops) \<and>
         (allNamesResolve prim \<longrightarrow>
            (\<exists>orderedOps. getOrderedOps prim = Inr orderedOps) \<and>
            (\<forall>ndx. hasOp prim ndx = Inr (lastOpAt ops ndx \<noteq> None)) \<and>
            (\<forall>ndx. getOp prim ndx =
               (case lastOpAt ops ndx of None \<Rightarrow> Inl OutOfRange | Some xop \<Rightarrow> Inr xop)) \<and>
            (\<exists>prim'. setXformOpOrder prim = Inr (prim', \<not> orderWriteRejected prim)))"
proof (intro conjI allI impI)
  fix orderedOps ndx
  assume "getOrderedOps prim = Inr orderedOps"
  from getOrderedOps_Inr(2) [OF ops this]
  show "map_find orderedOps ndx = lastOpAt ops ndx" by simp
next
  fix ndx has
  assume "hasOp prim ndx = Inr has"
  then obtain m where g: "getOrderedOps prim = Inr m" and h: "has = (map_find m ndx \<noteq> None)"
    by (auto simp: hasOp_def split: sum.splits)
  from getOrderedOps_Inr(2) [OF ops g] h
  show "has = (lastOpAt ops ndx \<noteq> None)" by simp
next
  fix ndx xop
  assume "getOp prim ndx = Inr xop"
  then obtain m where g: "getOrderedOps prim = Inr m" and h: "map_find m ndx = Some xop"
    by (auto simp: getOp_def map_at_def map_find_def split: sum.splits option.splits)
  from getOrderedOps_Inr(2) [OF ops g] h
  show "lastOpAt ops ndx = Some xop" by simp
next
  fix prim'
  assume s: "setXformOpOrder prim = Inr (prim', True)"
  from setXformOpOrder_committed(1) [OF s] ops
  show "set (fst (GetOrderedXformOps prim')) = {xop. \<exists>ndx. lastOpAt ops ndx = Some xop}"
    by simp
  from setXformOpOrder_shrinks [OF s] dup ops
  show "distinct (positionsOf (fst (GetOrderedXformOps prim')))"
    and "length (fst (GetOrderedXformOps prim')) < length ops"
    by simp_all
next
  assume r: "allNamesResolve prim"
  from resolved_lookup(1) [OF r] have "\<exists>has. hasOp prim NdxRotate = Inr has" by simp
  then show "\<exists>orderedOps. getOrderedOps prim = Inr orderedOps"
    by (auto simp: hasOp_def split: sum.splits)
  show "\<exists>prim'. setXformOpOrder prim = Inr (prim', \<not> orderWriteRejected prim)"
    by (rule setXformOpOrder_resolved [OF r])
  fix ndx
  show "hasOp prim ndx = Inr (lastOpAt ops ndx \<noteq> None)"
    using resolved_lookup(1) [OF r, of ndx] ops by (simp add: authoredOpAt_def)
  show "getOp prim ndx =
      (case lastOpAt ops ndx of None \<Rightarrow> Inl OutOfRange | Some xop \<Rightarrow> Inr xop)"
    using resolved_lookup(2) [OF r, of ndx] ops by (simp add: authoredOpAt_def)
qed

theorem duplicate_positions_last_wins_witness:
  "sharesPosition (fst (GetOrderedXformOps twoRotatesPrim)) \<and>
   hasOp twoRotatesPrim NdxRotate = Inr True \<and>
   getOp twoRotatesPrim NdxRotate = Inr \<lparr>opAttrName = ''xformOp:rotateXYZ'', isInverseOp = False\<rparr> \<and>
   (\<exists>prim'. setXformOpOrder twoRotatesPrim = Inr (prim', True) \<and>
      set (fst (GetOrderedXformOps prim')) = {\<lparr>opAttrName = ''xformOp:rotateXYZ'', isInverseOp = False\<rparr>} \<and>
      length (fst (GetOrderedXformOps prim')) < 2)"
proof -
  let ?ops = "[\<lparr>opAttrName = ''xformOp:rotateX'', isInverseOp = False\<rparr>,
               \<lparr>opAttrName = ''xformOp:rotateXYZ'', isInverseOp = False\<rparr>]"
  have ops: "GetOrderedXformOps twoRotatesPrim = (?ops, False)"
    by code_simp
  have dup: "sharesPosition ?ops"
    by code_simp
  have r: "allNamesResolve twoRotatesPrim"
    by code_simp
  have w: "\<not> orderWriteRejected twoRotatesPrim"
    by code_simp
  have last: "lastOpAt ?ops ndx =
      (if ndx = NdxRotate then Some \<lparr>opAttrName = ''xformOp:rotateXYZ'', isInverseOp = False\<rparr>
       else None)" for ndx
    by (simp add: lastOpAt_def GetOpName_def gOpNameToNdx_find_def gOpNameToNdx_entries_def)
  note t = duplicate_positions_last_wins [OF ops dup]
  from t r w obtain prim' where s: "setXformOpOrder twoRotatesPrim = Inr (prim', True)"
    by auto
  with t have "set (fst (GetOrderedXformOps prim')) = {xop. \<exists>ndx. lastOpAt ?ops ndx = Some xop}"
    and "length (fst (GetOrderedXformOps prim')) < length ?ops"
    by blast+
  with s t r ops dup show ?thesis
    by (auto simp: last)
qed

end
